theory Spec2Isabelle
  imports Complex_Main
begin

section \<open>Platform values: strings, numbers, errors\<close>

text \<open>
  The program is a React page written in TypeScript. Its numbers are JavaScript numbers: the
  model uses \<open>int\<close> for the values that the code keeps integral (seconds, milliseconds,
  totals) and \<open>real\<close> where a fraction can enter (the minutes field, the player's readings,
  the argument of the add callbacks). NaN and the infinities are the value \<open>None\<close> where the
  code tests for them (\<open>Number.isFinite\<close>) and are otherwise not inputs of the model; the
  rounding of doubles beyond \<open>2^53\<close> is not modelled. Strings are lists of characters; only
  ASCII matters to the code modelled here.
\<close>

datatype js_error = TypeError | SecurityError | QuotaExceededError

definition is_ws :: "char \<Rightarrow> bool" where
  "is_ws c = (c \<in> set [CHR 0x20, CHR 0x09, CHR 0x0A, CHR 0x0B, CHR 0x0C, CHR 0x0D])"

text \<open>\<open>String.prototype.trim\<close> on the six ASCII white-space characters; the white space
  outside ASCII that the platform strips as well (U+00A0, U+FEFF and others) is not
  modelled.\<close>

definition trim :: "string \<Rightarrow> string" where
  "trim s = rev (dropWhile is_ws (rev (dropWhile is_ws s)))"

definition in_range :: "char \<Rightarrow> char \<Rightarrow> char \<Rightarrow> bool" where
  "in_range lo hi c = ((of_char lo :: nat) \<le> of_char c \<and> (of_char c :: nat) \<le> of_char hi)"

definition is_id_char :: "char \<Rightarrow> bool" where
  "is_id_char c = (in_range CHR ''a'' CHR ''z'' c \<or> in_range CHR ''A'' CHR ''Z'' c
                   \<or> in_range CHR ''0'' CHR ''9'' c \<or> c = CHR ''_'' \<or> c = CHR ''-'')"

text \<open>The test \<open>/^[a-zA-Z0-9_-]{11}$/.test(s)\<close>.\<close>

definition id_regex_test :: "string \<Rightarrow> bool" where
  "id_regex_test s = (length s = 11 \<and> list_all is_id_char s)"

text \<open>\<open>s.split(c)\<close> for a one-character separator: never the empty list.\<close>

fun split :: "char \<Rightarrow> string \<Rightarrow> string list" where
  "split c [] = [[]]"
| "split c (x # xs) =
     (if x = c then [] # split c xs
      else (case split c xs of [] \<Rightarrow> [[x]] | y # ys \<Rightarrow> (x # y) # ys))"

text \<open>\<open>.filter(Boolean)\<close> on an array of strings drops the empty ones.\<close>

definition filter_Boolean :: "string list \<Rightarrow> string list" where
  "filter_Boolean xs = filter (\<lambda>x. x \<noteq> []) xs"

text \<open>\<open>xs.indexOf(x)\<close>: the first position of \<open>x\<close>, or \<open>-1\<close>.\<close>

fun indexOf :: "'a list \<Rightarrow> 'a \<Rightarrow> int" where
  "indexOf [] x = -1"
| "indexOf (y # ys) x =
     (if y = x then 0 else (let i = indexOf ys x in if i < 0 then -1 else i + 1))"

text \<open>\<open>xs[i]\<close>: \<open>undefined\<close> (here \<open>None\<close>) outside the array.\<close>

definition at_index :: "'a list \<Rightarrow> int \<Rightarrow> 'a option" where
  "at_index xs i = (if 0 \<le> i \<and> i < int (length xs) then Some (xs ! nat i) else None)"

text \<open>\<open>s.includes(t)\<close>: \<open>t\<close> occurs in \<open>s\<close> as a substring.\<close>

fun str_includes :: "string \<Rightarrow> string \<Rightarrow> bool" where
  "str_includes [] t = (t = [])"
| "str_includes (x # xs) t = (take (length t) (x # xs) = t \<or> str_includes xs t)"

section \<open>Video-ID resolver\<close>

text \<open>
  What the code reads of a parsed \<open>URL\<close> object. The platform's parser \<open>new URL(raw)\<close> is a
  parameter \<open>newURL\<close> of the resolver: it returns the parsed object or throws \<open>TypeError\<close>.
  \<open>searchParams.get(name)\<close> is the value of the first pair with that name.
\<close>

record url =
  hostname :: string
  pathname :: string
  searchParams :: "(string \<times> string) list"

definition searchParams_get :: "url \<Rightarrow> string \<Rightarrow> string option" where
  "searchParams_get u name = map_of (searchParams u) name"

text \<open>\<open>parts[idx + 1] && re.test(parts[idx + 1])\<close> after \<open>idx = parts.indexOf(marker)\<close>,
  \<open>idx >= 0\<close>; the result is the segment that the code returns, if the test passes.\<close>

definition segment_after :: "string list \<Rightarrow> string \<Rightarrow> string option" where
  "segment_after parts marker =
     (let idx = indexOf parts marker in
      if idx \<ge> 0 then
        (case at_index parts (idx + 1) of
           None \<Rightarrow> None
         | Some seg \<Rightarrow> if seg \<noteq> [] \<and> id_regex_test seg then Some seg else None)
      else None)"

definition extractYouTubeVideoId :: "(string \<Rightarrow> js_error + url) \<Rightarrow> string \<Rightarrow> string option" where
  "extractYouTubeVideoId newURL input =
     (let raw = trim input in
      if id_regex_test raw then Some raw
      else
        (case newURL raw of
           Inl e \<Rightarrow> None
         | Inr u \<Rightarrow>
             if str_includes (hostname u) ''youtu.be'' then
               (case at_index (filter_Boolean (split CHR ''/'' (pathname u))) 0 of
                  None \<Rightarrow> None
                | Some ident \<Rightarrow> if ident \<noteq> [] \<and> id_regex_test ident then Some ident else None)
             else
               (let v = searchParams_get u ''v'' in
                if (case v of None \<Rightarrow> False | Some w \<Rightarrow> w \<noteq> [] \<and> id_regex_test w) then v
                else
                  (let parts = filter_Boolean (split CHR ''/'' (pathname u)) in
                   case segment_after parts ''embed'' of
                     Some seg \<Rightarrow> Some seg
                   | None \<Rightarrow>
                       (case segment_after parts ''shorts'' of
                          Some seg \<Rightarrow> Some seg
                        | None \<Rightarrow> None)))))"

text \<open>
  The resolver as section 4.1 of the specification words it: six rules checked in order, the
  first match wins. A path segment is a non-empty piece of the path between slashes; a
  candidate is accepted when it has the canonical shape (11 characters of \<open>[A-Za-z0-9_-]\<close>).
\<close>

datatype resolution = VideoId string | Invalid

fun first_segment :: "string list \<Rightarrow> string option" where
  "first_segment [] = None"
| "first_segment (x # xs) = (if x = [] then first_segment xs else Some x)"

fun follows_marker :: "string \<Rightarrow> string list \<Rightarrow> string option" where
  "follows_marker m (x # y # xs) = (if x = m then Some y else follows_marker m (y # xs))"
| "follows_marker m xs = None"

definition path_segments :: "url \<Rightarrow> string list" where
  "path_segments u = filter (\<lambda>x. x \<noteq> []) (split CHR ''/'' (pathname u))"

definition shape_valid :: "string option \<Rightarrow> resolution" where
  "shape_valid candidate =
     (case candidate of
        None \<Rightarrow> Invalid
      | Some i \<Rightarrow> if id_regex_test i then VideoId i else Invalid)"

definition resolve_spec :: "(string \<Rightarrow> js_error + url) \<Rightarrow> string \<Rightarrow> resolution" where
  "resolve_spec newURL input =
     (if id_regex_test (trim input) then VideoId (trim input)
      else
        (case newURL (trim input) of
           Inl e \<Rightarrow> Invalid
         | Inr u \<Rightarrow>
             if str_includes (hostname u) ''youtu.be''
             then shape_valid (first_segment (split CHR ''/'' (pathname u)))
             else if shape_valid (searchParams_get u ''v'') \<noteq> Invalid
             then shape_valid (searchParams_get u ''v'')
             else if shape_valid (follows_marker ''embed'' (path_segments u)) \<noteq> Invalid
             then shape_valid (follows_marker ''embed'' (path_segments u))
             else shape_valid (follows_marker ''shorts'' (path_segments u))))"

definition as_option :: "resolution \<Rightarrow> string option" where
  "as_option r = (case r of VideoId i \<Rightarrow> Some i | Invalid \<Rightarrow> None)"

text \<open>
  A parser for examples: it reads the plain shape \<open>http(s)://host/path?name=value&...\<close>
  (lower-case host, path and query of identifier characters) as the platform's parser does,
  and reports every other string as a parse failure. The theorems below hold for every
  parser; this one supplies concrete inputs.
\<close>

fun strip_prefix :: "string \<Rightarrow> string \<Rightarrow> string option" where
  "strip_prefix [] s = Some s"
| "strip_prefix (p # ps) [] = None"
| "strip_prefix (p # ps) (c # cs) = (if p = c then strip_prefix ps cs else None)"

definition parse_pair :: "string \<Rightarrow> string \<times> string" where
  "parse_pair s =
     (takeWhile (\<lambda>c. c \<noteq> CHR ''='') s, drop 1 (dropWhile (\<lambda>c. c \<noteq> CHR ''='') s))"

definition is_host_char :: "char \<Rightarrow> bool" where
  "is_host_char c = (in_range CHR ''a'' CHR ''z'' c \<or> c = CHR ''.'' \<or> c = CHR ''-'')"

definition newURL_basic :: "string \<Rightarrow> js_error + url" where
  "newURL_basic s =
     (case (case strip_prefix ''https://'' s of
              Some r \<Rightarrow> Some r
            | None \<Rightarrow> strip_prefix ''http://'' s) of
        None \<Rightarrow> Inl TypeError
      | Some r \<Rightarrow>
          (let host = takeWhile (\<lambda>c. c \<noteq> CHR ''/'' \<and> c \<noteq> CHR ''?'') r;
               tail = dropWhile (\<lambda>c. c \<noteq> CHR ''/'' \<and> c \<noteq> CHR ''?'') r;
               path = takeWhile (\<lambda>c. c \<noteq> CHR ''?'') tail;
               query = drop 1 (dropWhile (\<lambda>c. c \<noteq> CHR ''?'') tail)
           in if host \<noteq> [] \<and> list_all is_host_char host
                 \<and> list_all (\<lambda>c. is_id_char c \<or> c = CHR ''/'') path
                 \<and> list_all (\<lambda>c. is_id_char c \<or> c = CHR ''='' \<or> c = CHR ''&'') query
              then Inr \<lparr>hostname = host,
                        pathname = (if path = [] then ''/'' else path),
                        searchParams = map parse_pair (filter_Boolean (split CHR ''&'' query))\<rparr>
              else Inl TypeError))"

section \<open>Persistent storage and number conversion\<close>

text \<open>
  \<open>window.localStorage\<close>: the stored items, and the two ways in which the platform makes an
  access throw: storage denied to the page (every access throws) and quota exhausted
  (\<open>setItem\<close> throws).
\<close>

record storage =
  items :: "string \<rightharpoonup> string"
  denied :: bool
  full :: bool

definition getItem :: "storage \<Rightarrow> string \<Rightarrow> js_error + string option" where
  "getItem st key = (if denied st then Inl SecurityError else Inr (items st key))"

definition setItem :: "storage \<Rightarrow> string \<Rightarrow> string \<Rightarrow> js_error + storage" where
  "setItem st key v =
     (if denied st then Inl SecurityError
      else if full st then Inl QuotaExceededError
      else Inr (st\<lparr>items := (items st)(key \<mapsto> v)\<rparr>))"

definition is_digit :: "char \<Rightarrow> bool" where
  "is_digit c = in_range CHR ''0'' CHR ''9'' c"

definition digit_char :: "nat \<Rightarrow> char" where
  "digit_char d = char_of (48 + d)"

fun digits_value :: "nat \<Rightarrow> string \<Rightarrow> nat" where
  "digits_value acc [] = acc"
| "digits_value acc (c # cs) = digits_value (10 * acc + (of_char c - 48)) cs"

fun digits_of :: "nat \<Rightarrow> string" where
  "digits_of n = (if n < 10 then [digit_char n] else digits_of (n div 10) @ [digit_char (n mod 10)])"

declare digits_of.simps [simp del]

text \<open>
  \<open>String(n)\<close> for an integer \<open>n\<close>: its decimal digits (the exponent form that the platform
  uses from \<open>10^21\<close> on is not modelled).
\<close>

definition js_String :: "int \<Rightarrow> string" where
  "js_String n = (if n < 0 then CHR ''-'' # digits_of (nat (- n)) else digits_of (nat n))"

text \<open>
  \<open>Number(s)\<close> on the texts this program stores: white space is trimmed, the empty text is
  \<open>0\<close>, an optionally signed run of decimal digits is its value, and every other text is
  \<open>None\<close>, which stands for a result that is not finite (NaN). Fractions, exponents and
  radix prefixes, which the program never writes, are not modelled.
\<close>

definition js_Number :: "string \<Rightarrow> int option" where
  "js_Number s =
     (let t = trim s in
      case t of
        [] \<Rightarrow> Some 0
      | c # cs \<Rightarrow>
          if c = CHR ''-'' \<or> c = CHR ''+'' then
            (if cs \<noteq> [] \<and> list_all is_digit cs
             then Some ((if c = CHR ''-'' then -1 else 1) * int (digits_value 0 cs))
             else None)
          else if list_all is_digit t then Some (int (digits_value 0 t))
          else None)"

definition readNumber :: "storage \<Rightarrow> string \<Rightarrow> int" where
  "readNumber st key =
     (case getItem st key of
        Inl e \<Rightarrow> 0
      | Inr v \<Rightarrow>
          (let n = (case v of
                      None \<Rightarrow> Some 0
                    | Some s \<Rightarrow> if s \<noteq> [] then js_Number s else Some 0)
           in case n of Some k \<Rightarrow> k | None \<Rightarrow> 0))"

definition writeNumber :: "storage \<Rightarrow> string \<Rightarrow> real \<Rightarrow> storage" where
  "writeNumber st key val =
     (case setItem st key (js_String (max 0 \<lfloor>val\<rfloor>)) of
        Inl e \<Rightarrow> st
      | Inr st' \<Rightarrow> st')"

section \<open>Daily totals (component \<open>Page\<close>)\<close>

text \<open>
  The state of \<open>Page\<close> (\<open>today\<close> and the two totals) together with the platform objects that
  the callbacks of the page reach: the storage, the notification interface
  (\<open>notification\<close> is \<open>Notification.permission\<close>, or \<open>None\<close> where the interface is
  undefined; \<open>notificationThrows\<close> says that its constructor throws) and the sequence of
  outward effects in the order of the calls that cause them. Every handler runs to its end
  before the next event is handled. A handler reads component state as its closure holds
  it, that is as of the last render, and reads refs as they are; \<open>card_step\<close> and
  \<open>panel_step\<close> below are an event followed by the re-render, so that the next handler
  sees what the previous one left, and \<open>ui_step\<close> keeps the event and the render apart.
\<close>

datatype total = Learning | Rest

datatype effect = Credited total int | BeepTriple | SystemNotification string | StopVideo

record keys =
  learn :: string
  rest :: string
  legacyBreak :: string

record page =
  today :: string
  totalLearnSec :: int
  totalRestSec :: int
  localStorage :: storage
  notification :: "string option"
  notificationThrows :: bool
  effects :: "effect list"

definition page_keys :: "page \<Rightarrow> keys" where
  "page_keys p =
     (let d = today p in
      \<lparr>learn = (if d \<noteq> [] then ''ytdoro:'' @ d @ '':learnSec'' else []),
       rest = (if d \<noteq> [] then ''ytdoro:'' @ d @ '':restSec'' else []),
       legacyBreak = (if d \<noteq> [] then ''ytdoro:'' @ d @ '':breakSec'' else [])\<rparr>)"

text \<open>The first render: no day, totals zero.\<close>

definition initial_page :: "storage \<Rightarrow> string option \<Rightarrow> bool \<Rightarrow> page" where
  "initial_page st perm throws =
     \<lparr>today = [], totalLearnSec = 0, totalRestSec = 0, localStorage = st,
      notification = perm, notificationThrows = throws, effects = []\<rparr>"

text \<open>The deferred callback of the mount effect; \<open>d\<close> is the value of \<open>dayKey()\<close>.\<close>

definition mount_effect :: "string \<Rightarrow> page \<Rightarrow> page" where
  "mount_effect d p =
     (let learnKey = ''ytdoro:'' @ d @ '':learnSec'';
          restKey = ''ytdoro:'' @ d @ '':restSec'';
          legacyKey = ''ytdoro:'' @ d @ '':breakSec'';
          learnV = readNumber (localStorage p) learnKey;
          legacy = readNumber (localStorage p) legacyKey;
          restV = (if readNumber (localStorage p) restKey \<noteq> 0
                   then readNumber (localStorage p) restKey else legacy);
          st = (if restV = 0 \<and> legacy > 0
                then writeNumber (localStorage p) restKey (of_int legacy)
                else localStorage p)
      in p\<lparr>today := d, totalLearnSec := learnV, totalRestSec := restV, localStorage := st\<rparr>)"

definition addLearn :: "real \<Rightarrow> page \<Rightarrow> page" where
  "addLearn seconds p =
     (let delta = max 0 \<lfloor>seconds\<rfloor>;
          prev = totalLearnSec p;
          next = prev + delta;
          st = (if learn (page_keys p) \<noteq> []
                then writeNumber (localStorage p) (learn (page_keys p)) (of_int next)
                else localStorage p)
      in p\<lparr>totalLearnSec := next, localStorage := st,
           effects := effects p @ [Credited Learning delta]\<rparr>)"

definition addRest :: "real \<Rightarrow> page \<Rightarrow> page" where
  "addRest seconds p =
     (let delta = max 0 \<lfloor>seconds\<rfloor>;
          prev = totalRestSec p;
          next = prev + delta;
          st = (if rest (page_keys p) \<noteq> []
                then writeNumber (localStorage p) (rest (page_keys p)) (of_int next)
                else localStorage p)
      in p\<lparr>totalRestSec := next, localStorage := st,
           effects := effects p @ [Credited Rest delta]\<rparr>)"

definition resetToday :: "page \<Rightarrow> page" where
  "resetToday p =
     (let k = page_keys p;
          st1 = (if learn k \<noteq> [] then writeNumber (localStorage p) (learn k) 0
                 else localStorage p);
          st2 = (if rest k \<noteq> [] then writeNumber st1 (rest k) 0 else st1);
          st3 = (if legacyBreak k \<noteq> [] then writeNumber st2 (legacyBreak k) 0 else st2)
      in p\<lparr>totalLearnSec := 0, totalRestSec := 0, localStorage := st3\<rparr>)"

text \<open>A sequence of add calls, as \<open>(category, seconds)\<close> pairs.\<close>

fun add_all :: "(total \<times> real) list \<Rightarrow> page \<Rightarrow> page" where
  "add_all [] p = p"
| "add_all ((c, x) # xs) p =
     add_all xs (case c of Learning \<Rightarrow> addLearn x p | Rest \<Rightarrow> addRest x p)"

section \<open>Countdown engine (component \<open>LearningCard\<close>)\<close>

datatype countdown_status = Idle | Running | Paused | Done

text \<open>
  \<open>timerRef\<close> holds the live interval, if any; what is kept of it is what its callback
  captured when \<open>start\<close> created it: the target \<open>t\<close> and the anchor \<open>startTs\<close>.
\<close>

record interval =
  t :: int
  startTs :: int

record learning_card =
  minutes :: real
  status :: countdown_status
  startedAt :: "int option"
  targetSec :: int
  elapsedSec :: int
  remainingSec :: int
  timerRef :: "interval option"

definition initial_card :: learning_card where
  "initial_card =
     \<lparr>minutes = 25, status = Idle, startedAt = None, targetSec = 25 * 60,
      elapsedSec = 0, remainingSec = 0, timerRef = None\<rparr>"

definition clear :: "learning_card \<Rightarrow> learning_card" where
  "clear c = (if timerRef c \<noteq> None then c\<lparr>timerRef := None\<rparr> else c)"

definition beepTriple :: "page \<Rightarrow> page" where
  "beepTriple p = p\<lparr>effects := effects p @ [BeepTriple]\<rparr>"

text \<open>The guarded \<open>new Notification("Learning selesai", ...)\<close>; a throw is swallowed.\<close>

definition notifyDone :: "page \<Rightarrow> page" where
  "notifyDone p =
     (if notification p = Some ''granted'' \<and> \<not> notificationThrows p
      then p\<lparr>effects := effects p @ [SystemNotification ''Learning selesai'']\<rparr>
      else p)"

text \<open>\<open>start\<close>; \<open>now\<close> is the clock reading \<open>Date.now()\<close> in milliseconds. The call
  that primes the audio context changes nothing that is modelled; \<open>beepTriple\<close> is one
  effect, whatever the audio context then plays.\<close>

definition start :: "int \<Rightarrow> learning_card \<Rightarrow> learning_card" where
  "start now c =
     (let c1 = clear c;
          m = max 1 \<lfloor>minutes c1\<rfloor>;
          tt = m * 60
      in c1\<lparr>targetSec := tt, elapsedSec := 0, remainingSec := tt, startedAt := Some now,
            status := Running, timerRef := Some \<lparr>t = tt, startTs = now\<rparr>\<rparr>)"

text \<open>One firing of the interval created by \<open>start\<close>; a cleared interval does not fire.\<close>

definition interval_callback ::
  "(real \<Rightarrow> page \<Rightarrow> page) \<Rightarrow> int \<Rightarrow> page \<times> learning_card \<Rightarrow> page \<times> learning_card" where
  "interval_callback onAddLearn now pc =
     (case timerRef (snd pc) of
        None \<Rightarrow> pc
      | Some iv \<Rightarrow>
          (let el = (now - startTs iv) div 1000;
               rem = max 0 (t iv - el);
               c1 = (snd pc)\<lparr>elapsedSec := el, remainingSec := rem\<rparr>
           in if rem \<le> 0
              then (notifyDone (beepTriple (onAddLearn (of_int (t iv)) (fst pc))),
                    (clear c1)\<lparr>status := Done\<rparr>)
              else (fst pc, c1)))"

text \<open>
  \<open>stop\<close> tests \<open>status\<close> and credits \<open>elapsedSec\<close> as its closure holds them: the values
  of the last render, here the card \<open>rendered\<close>. The interval is a ref and is cleared as it
  is now.
\<close>

definition stop ::
  "(real \<Rightarrow> page \<Rightarrow> page) \<Rightarrow> learning_card \<Rightarrow> page \<times> learning_card
    \<Rightarrow> page \<times> learning_card" where
  "stop onAddLearn rendered pc =
     (if status rendered \<noteq> Running then pc
      else (onAddLearn (of_int (elapsedSec rendered)) (fst pc),
            (clear (snd pc))\<lparr>status := Paused\<rparr>))"

text \<open>The events of a card and the run of a sequence of them, each event followed by the
  re-render: the handler of the next event closes over the state that this one left.\<close>

datatype card_event = Start int | Tick int | Stop | SetMinutes real

fun card_step :: "card_event \<Rightarrow> page \<times> learning_card \<Rightarrow> page \<times> learning_card" where
  "card_step (Start now) pc = (fst pc, start now (snd pc))"
| "card_step (Tick now) pc = interval_callback addLearn now pc"
| "card_step Stop pc = stop addLearn (snd pc) pc"
| "card_step (SetMinutes m) pc = (fst pc, (snd pc)\<lparr>minutes := m\<rparr>)"

fun card_run :: "card_event list \<Rightarrow> page \<times> learning_card \<Rightarrow> page \<times> learning_card" where
  "card_run [] pc = pc"
| "card_run (e # es) pc = card_run es (card_step e pc)"

text \<open>
  Events and renders kept apart. The state is the page and the card as the handlers have
  left them, and the card of the last render. A handler reads \<open>minutes\<close>, \<open>status\<close> and
  \<open>elapsedSec\<close> from the last render; the interval callback reads only what it captured
  when \<open>start\<close> created it; \<open>Render\<close> makes the current card the rendered one.
\<close>

datatype ui_event = Handler card_event | Render

fun ui_step ::
  "ui_event \<Rightarrow> (page \<times> learning_card) \<times> learning_card
    \<Rightarrow> (page \<times> learning_card) \<times> learning_card" where
  "ui_step Render (pc, r) = (pc, snd pc)"
| "ui_step (Handler (Start now)) (pc, r) =
     ((fst pc, (start now ((snd pc)\<lparr>minutes := minutes r\<rparr>))\<lparr>minutes := minutes (snd pc)\<rparr>), r)"
| "ui_step (Handler (Tick now)) (pc, r) = (interval_callback addLearn now pc, r)"
| "ui_step (Handler Stop) (pc, r) = (stop addLearn r pc, r)"
| "ui_step (Handler (SetMinutes m)) (pc, r) = ((fst pc, (snd pc)\<lparr>minutes := m\<rparr>), r)"

fun ui_run ::
  "ui_event list \<Rightarrow> (page \<times> learning_card) \<times> learning_card
    \<Rightarrow> (page \<times> learning_card) \<times> learning_card" where
  "ui_run [] x = x"
| "ui_run (e # es) x = ui_run es (ui_step e x)"

section \<open>Player-driven engine (component \<open>YouTubeRestPanel\<close>)\<close>

datatype player_status = PlayerIdle | Playing | PlayerPaused | Ended | Error

text \<open>
  The embedded player as the panel sees it: what \<open>getDuration()\<close> and \<open>getCurrentTime()\<close>
  return at present. \<open>playerRef\<close> holds the player once it has reported ready; \<open>tickRef\<close>
  says whether a polling interval is live; \<open>countedRef\<close> is the credit latch.
\<close>

record player =
  getDuration :: real
  getCurrentTime :: real

record youtube_panel =
  input :: string
  ytStatus :: player_status
  videoId :: "string option"
  durationSec :: int
  ytRemainingSec :: int
  errorMsg :: string
  playerRef :: "player option"
  tickRef :: bool
  countedRef :: bool

definition initial_panel :: youtube_panel where
  "initial_panel =
     \<lparr>input = [], ytStatus = PlayerIdle, videoId = None, durationSec = 0, ytRemainingSec = 0,
      errorMsg = [], playerRef = None, tickRef = False, countedRef = False\<rparr>"

definition clearTick :: "youtube_panel \<Rightarrow> youtube_panel" where
  "clearTick s = (if tickRef s then s\<lparr>tickRef := False\<rparr> else s)"

text \<open>The readings of the player are exact reals: the rounding of the double subtraction
  \<open>d - t\<close> before the floor is not modelled.\<close>

definition tickOnce :: "youtube_panel \<Rightarrow> youtube_panel" where
  "tickOnce s =
     (case playerRef s of
        None \<Rightarrow> s
      | Some p \<Rightarrow>
          (let d = getDuration p;
               ct = getCurrentTime p;
               s1 = (if d > 0 then s\<lparr>durationSec := \<lfloor>d\<rfloor>\<rparr> else s)
           in if d > 0 then s1\<lparr>ytRemainingSec := max 0 \<lfloor>d - ct\<rfloor>\<rparr> else s1))"

definition startTick :: "youtube_panel \<Rightarrow> youtube_panel" where
  "startTick s = (clearTick s)\<lparr>tickRef := True\<rparr>"

definition startRestYoutube ::
  "(string \<Rightarrow> js_error + url) \<Rightarrow> youtube_panel \<Rightarrow> youtube_panel" where
  "startRestYoutube newURL s =
     (let s1 = clearTick (s\<lparr>errorMsg := []\<rparr>) in
      case extractYouTubeVideoId newURL (input s1) of
        None \<Rightarrow> s1\<lparr>ytStatus := Error, errorMsg := ''URL/ID YouTube tidak valid.''\<rparr>
      | Some ident \<Rightarrow>
          if ident = [] then s1\<lparr>ytStatus := Error, errorMsg := ''URL/ID YouTube tidak valid.''\<rparr>
          else s1\<lparr>countedRef := False, videoId := Some ident, durationSec := 0,
                  ytRemainingSec := 0, ytStatus := PlayerIdle\<rparr>)"

definition stopRestYoutube ::
  "(real \<Rightarrow> page \<Rightarrow> page) \<Rightarrow> page \<times> youtube_panel \<Rightarrow> page \<times> youtube_panel" where
  "stopRestYoutube onAddRest ps =
     (case playerRef (snd ps) of
        None \<Rightarrow> ps
      | Some p \<Rightarrow>
          (let s = snd ps;
               used = max 0 (durationSec s - ytRemainingSec s);
               pg1 = (if \<not> countedRef s \<and> used > 0 then onAddRest (of_int used) (fst ps)
                      else fst ps);
               s1 = (if \<not> countedRef s then s\<lparr>countedRef := True\<rparr> else s);
               pg2 = pg1\<lparr>effects := effects pg1 @ [StopVideo]\<rparr>
           in (pg2, (clearTick s1)\<lparr>ytStatus := PlayerIdle, videoId := None, durationSec := 0,
                                    ytRemainingSec := 0\<rparr>)))"

definition handleEndedCount ::
  "(real \<Rightarrow> page \<Rightarrow> page) \<Rightarrow> page \<times> youtube_panel \<Rightarrow> page \<times> youtube_panel" where
  "handleEndedCount onAddRest ps =
     (if countedRef (snd ps) then ps
      else
        (let s = snd ps;
             d = (if durationSec s \<noteq> 0 then durationSec s
                  else \<lfloor>case playerRef s of None \<Rightarrow> 0 | Some p \<Rightarrow> getDuration p\<rfloor>)
         in ((if d > 0 then onAddRest (of_int d) (fst ps) else fst ps),
             s\<lparr>countedRef := True\<rparr>)))"

text \<open>The handlers that the panel passes to the player component.\<close>

definition onReady :: "player \<Rightarrow> youtube_panel \<Rightarrow> youtube_panel" where
  "onReady target s = tickOnce (s\<lparr>playerRef := Some target, ytStatus := PlayerIdle\<rparr>)"

definition onPlay :: "youtube_panel \<Rightarrow> youtube_panel" where
  "onPlay s = startTick (tickOnce (s\<lparr>ytStatus := Playing\<rparr>))"

definition onPause :: "youtube_panel \<Rightarrow> youtube_panel" where
  "onPause s = tickOnce (clearTick (s\<lparr>ytStatus := PlayerPaused\<rparr>))"

definition onEnd ::
  "(real \<Rightarrow> page \<Rightarrow> page) \<Rightarrow> page \<times> youtube_panel \<Rightarrow> page \<times> youtube_panel" where
  "onEnd onAddRest ps =
     handleEndedCount onAddRest
       (fst ps, (clearTick ((snd ps)\<lparr>ytStatus := Ended\<rparr>))\<lparr>ytRemainingSec := 0\<rparr>)"

definition onError :: "youtube_panel \<Rightarrow> youtube_panel" where
  "onError s =
     (clearTick (s\<lparr>ytStatus := Error\<rparr>))
       \<lparr>errorMsg := ''Video gagal diputar (embed dibatasi / region / jaringan).''\<rparr>"

definition onStateChange ::
  "(real \<Rightarrow> page \<Rightarrow> page) \<Rightarrow> int \<Rightarrow> page \<times> youtube_panel \<Rightarrow> page \<times> youtube_panel" where
  "onStateChange onAddRest code ps =
     (if code = 1 then (fst ps, startTick ((snd ps)\<lparr>ytStatus := Playing\<rparr>))
      else if code = 2 then (fst ps, clearTick ((snd ps)\<lparr>ytStatus := PlayerPaused\<rparr>))
      else if code = 0 then
        handleEndedCount onAddRest
          (fst ps, (clearTick ((snd ps)\<lparr>ytStatus := Ended\<rparr>))\<lparr>ytRemainingSec := 0\<rparr>)
      else ps)"

text \<open>
  The events of the panel: the two buttons, typing, the signals of the player, one firing
  of the polling interval, and the player moving on (its readings change).
\<close>

datatype panel_event =
    StartRest
  | StopRest
  | SetInput string
  | Ready player
  | Play
  | Pause
  | End
  | PlayerError
  | StateChange int
  | Poll
  | PlayerAt real real

fun panel_step ::
  "(string \<Rightarrow> js_error + url) \<Rightarrow> panel_event \<Rightarrow> page \<times> youtube_panel \<Rightarrow> page \<times> youtube_panel" where
  "panel_step newURL StartRest ps = (fst ps, startRestYoutube newURL (snd ps))"
| "panel_step newURL StopRest ps = stopRestYoutube addRest ps"
| "panel_step newURL (SetInput v) ps = (fst ps, (snd ps)\<lparr>input := v\<rparr>)"
| "panel_step newURL (Ready target) ps = (fst ps, onReady target (snd ps))"
| "panel_step newURL Play ps = (fst ps, onPlay (snd ps))"
| "panel_step newURL Pause ps = (fst ps, onPause (snd ps))"
| "panel_step newURL End ps = onEnd addRest ps"
| "panel_step newURL PlayerError ps = (fst ps, onError (snd ps))"
| "panel_step newURL (StateChange code) ps = onStateChange addRest code ps"
| "panel_step newURL Poll ps = (fst ps, if tickRef (snd ps) then tickOnce (snd ps) else snd ps)"
| "panel_step newURL (PlayerAt d ct) ps =
     (fst ps,
      case playerRef (snd ps) of
        None \<Rightarrow> snd ps
      | Some p \<Rightarrow> (snd ps)\<lparr>playerRef := Some \<lparr>getDuration = d, getCurrentTime = ct\<rparr>\<rparr>)"

fun panel_run ::
  "(string \<Rightarrow> js_error + url) \<Rightarrow> panel_event list \<Rightarrow> page \<times> youtube_panel \<Rightarrow> page \<times> youtube_panel" where
  "panel_run newURL [] ps = ps"
| "panel_run newURL (e # es) ps = panel_run newURL es (panel_step newURL e ps)"

text \<open>The triggers of the terminal transition: natural end on either channel, user stop.\<close>

definition terminal :: "panel_event \<Rightarrow> bool" where
  "terminal e = (e = End \<or> e = StateChange 0 \<or> e = StopRest)"

section \<open>Example states\<close>

text \<open>A working, empty storage; the page after its mount effect on a day; a card that was
  started at clock reading 0 and has polled once after 90.5 seconds.\<close>

definition empty_storage :: storage where
  "empty_storage = \<lparr>items = Map.empty, denied = False, full = False\<rparr>"

definition example_page :: page where
  "example_page = mount_effect ''2026-11-03'' (initial_page empty_storage (Some ''granted'') False)"

definition running_example :: "page \<times> learning_card" where
  "running_example = card_run [Start 0, Tick 90500] (example_page, initial_card)"

text \<open>A storage in which only the legacy key of the day holds a value, and the page
  mounted on it.\<close>

definition legacy_storage :: storage where
  "legacy_storage =
     \<lparr>items = [''ytdoro:2026-11-03:breakSec'' \<mapsto> ''120''], denied = False, full = False\<rparr>"

definition legacy_page :: page where
  "legacy_page = mount_effect ''2026-11-03'' (initial_page legacy_storage None False)"

text \<open>
  The scenario of the specification: a watch URL is entered and started, the player reports
  ready with duration 212, plays, and has reached position 50 at the last poll before the
  user stops. The panel of the second example is playing that video when the text
  \<open>not a url\<close> is typed into the field.
\<close>

definition stop_scenario :: "panel_event list" where
  "stop_scenario =
     [SetInput ''https://www.youtube.com/watch?v=dQw4w9WgXcQ'', StartRest,
      Ready \<lparr>getDuration = 212, getCurrentTime = 0\<rparr>, Play, PlayerAt 212 50, Poll, StopRest]"

definition playing_panel :: youtube_panel where
  "playing_panel =
     snd (panel_run newURL_basic
            [SetInput ''https://www.youtube.com/watch?v=dQw4w9WgXcQ'', StartRest,
             Ready \<lparr>getDuration = 212, getCurrentTime = 0\<rparr>, Play, PlayerAt 212 50, Poll,
             SetInput ''not a url'']
            (example_page, initial_panel))"

text \<open>
  What holds of a card in every state that it reaches: the remaining time is not negative,
  the target is at least a minute, a live interval carries the target of the card and is
  live only while \<open>Running\<close>, elapsed and remaining add up to the target while \<open>Running\<close>, and
  in \<open>Done\<close> nothing remains and the target has elapsed.
\<close>

definition card_inv :: "learning_card \<Rightarrow> bool" where
  "card_inv c =
     (0 \<le> remainingSec c \<and> 60 \<le> targetSec c
      \<and> (case timerRef c of None \<Rightarrow> True | Some iv \<Rightarrow> t iv = targetSec c \<and> status c = Running)
      \<and> (status c = Running \<longrightarrow> elapsedSec c + remainingSec c = targetSec c)
      \<and> (status c = Done \<longrightarrow> remainingSec c = 0 \<and> targetSec c \<le> elapsedSec c))"

text \<open>The scenario of the specification: a Learning countdown of 25 minutes, started at
  clock reading 0, polled after 10 and after 1500 seconds.\<close>

definition learning_scenario :: "page \<times> learning_card" where
  "learning_scenario = card_run [Start 0, Tick 10000, Tick 1500000] (example_page, initial_card)"

text \<open>
  A 25-minute countdown started at clock reading 0 and rendered; a tick after 1499.9 seconds,
  rendered; the ending tick after 1500 seconds; and then, before the card is rendered
  again, a click on Stop, whose button the last render left enabled. \<open>ended_unrendered\<close>
  is the state before the click, \<open>stale_stop\<close> the state after it.
\<close>

definition ended_unrendered :: "(page \<times> learning_card) \<times> learning_card" where
  "ended_unrendered =
     ui_run [Handler (Start 0), Render, Handler (Tick 1499900), Render, Handler (Tick 1500000)]
       ((example_page, initial_card), initial_card)"

definition stale_stop :: "(page \<times> learning_card) \<times> learning_card" where
  "stale_stop = ui_run [Handler Stop, Render] ended_unrendered"

text \<open>The storage of the legacy example when it is out of quota, and the page mounted
  on it.\<close>

definition full_legacy_storage :: storage where
  "full_legacy_storage = legacy_storage\<lparr>full := True\<rparr>"

definition full_legacy_page :: page where
  "full_legacy_page = mount_effect ''2026-11-03'' (initial_page full_legacy_storage None False)"

text \<open>A one-minute countdown started at clock reading 0 whose next tick comes after 61
  seconds (a throttled or suspended tab).\<close>

definition late_example :: "page \<times> learning_card" where
  "late_example = card_run [SetMinutes 1, Start 0, Tick 61000] (example_page, initial_card)"

section \<open>Lemmas on the platform functions\<close>

text \<open>Writing a number and reading it back: \<open>Number(String(n)) = n\<close> for \<open>n \<ge> 0\<close>.\<close>

lemma digit_char_is_digit: "d < 10 \<Longrightarrow> is_digit (digit_char d)"
  by (simp add: is_digit_def digit_char_def in_range_def)

lemma digit_char_value: "d < 10 \<Longrightarrow> of_char (digit_char d) - 48 = d"
  by (simp add: digit_char_def)

lemma digit_not_ws: "is_digit c \<Longrightarrow> \<not> is_ws c"
  by (auto simp: is_digit_def is_ws_def in_range_def)

lemma digits_of_all_digits: "list_all is_digit (digits_of n)"
proof (induction n rule: digits_of.induct)
  case (1 n)
  show ?case
  proof (cases "n < 10")
    case True
    then show ?thesis by (subst digits_of.simps) (simp add: digit_char_is_digit)
  next
    case False
    with 1 show ?thesis
      by (subst digits_of.simps) (simp add: digit_char_is_digit)
  qed
qed

lemma digits_of_nonempty: "digits_of n \<noteq> []"
  by (subst digits_of.simps) simp

lemma digits_value_snoc: "digits_value acc (xs @ [c]) = 10 * digits_value acc xs + (of_char c - 48)"
  by (induction xs arbitrary: acc) simp_all

lemma digits_value_digits_of: "digits_value 0 (digits_of n) = n"
proof (induction n rule: digits_of.induct)
  case (1 n)
  show ?case
  proof (cases "n < 10")
    case True
    then show ?thesis by (subst digits_of.simps) (simp add: digit_char_value)
  next
    case False
    with 1 have "digits_value 0 (digits_of (n div 10)) = n div 10" by simp
    with False show ?thesis
      by (subst digits_of.simps) (simp add: digits_value_snoc digit_char_value)
  qed
qed

lemma trim_no_ws: "s \<noteq> [] \<Longrightarrow> \<not> is_ws (hd s) \<Longrightarrow> \<not> is_ws (last s) \<Longrightarrow> trim s = s"
proof -
  assume ne: "s \<noteq> []" and h: "\<not> is_ws (hd s)" and l: "\<not> is_ws (last s)"
  from ne h have front: "dropWhile is_ws s = s" by (cases s) simp_all
  from ne l have "\<not> is_ws (hd (rev s))" by (simp add: hd_rev)
  with ne have "dropWhile is_ws (rev s) = rev s" by (cases "rev s") simp_all
  with front show ?thesis by (simp add: trim_def)
qed

lemma trim_digits: "xs \<noteq> [] \<Longrightarrow> list_all is_digit xs \<Longrightarrow> trim xs = xs"
  by (rule trim_no_ws) (auto simp: list_all_iff digit_not_ws)

lemma js_Number_js_String: "0 \<le> n \<Longrightarrow> js_Number (js_String n) = Some n"
proof -
  assume n: "0 \<le> n"
  let ?ds = "digits_of (nat n)"
  have ne: "?ds \<noteq> []" by (rule digits_of_nonempty)
  have ad: "list_all is_digit ?ds" by (rule digits_of_all_digits)
  have tr: "trim ?ds = ?ds" using ne ad by (rule trim_digits)
  obtain c cs where ccs: "?ds = c # cs" using ne by (cases ?ds) auto
  have "is_digit c" using ad ccs by simp
  then have nosign: "c \<noteq> CHR ''-''" "c \<noteq> CHR ''+''"
    by (auto simp: is_digit_def in_range_def)
  have "js_Number ?ds = Some (int (digits_value 0 ?ds))"
    using tr ccs nosign ad by (simp add: js_Number_def)
  then show ?thesis using n by (simp add: js_String_def digits_value_digits_of)
qed

lemma readNumber_writeNumber_same:
  "\<not> denied st \<Longrightarrow> \<not> full st \<Longrightarrow> readNumber (writeNumber st k v) k = max 0 \<lfloor>v\<rfloor>"
proof -
  assume a: "\<not> denied st" "\<not> full st"
  have ne: "js_String (max 0 \<lfloor>v\<rfloor>) \<noteq> []"
    by (simp add: js_String_def digits_of_nonempty)
  have "js_Number (js_String (max 0 \<lfloor>v\<rfloor>)) = Some (max 0 \<lfloor>v\<rfloor>)"
    by (rule js_Number_js_String) simp
  with a ne show ?thesis
    by (simp add: readNumber_def writeNumber_def getItem_def setItem_def)
qed

lemma readNumber_writeNumber_other:
  "k' \<noteq> k \<Longrightarrow> readNumber (writeNumber st k v) k' = readNumber st k'"
  by (simp add: readNumber_def writeNumber_def getItem_def setItem_def)

lemma readNumber_denied: "denied st \<Longrightarrow> readNumber st k = 0"
  by (simp add: readNumber_def getItem_def)

lemma writeNumber_flags: "denied (writeNumber st k v) = denied st \<and> full (writeNumber st k v) = full st"
  by (simp add: writeNumber_def setItem_def)


section \<open>Facts about the example states and the totals\<close>

lemma example_page_fields:
  "today example_page = ''2026-11-03''" "totalLearnSec example_page = 0"
  "totalRestSec example_page = 0" "effects example_page = []"
  "notification example_page = Some ''granted''" "\<not> notificationThrows example_page"
  "localStorage example_page = empty_storage"
  by (simp_all add: example_page_def mount_effect_def initial_page_def empty_storage_def
        readNumber_def getItem_def)

lemma running_example_eq:
  "running_example =
     (example_page,
      \<lparr>minutes = 25, status = Running, startedAt = Some 0, targetSec = 1500, elapsedSec = 90,
       remainingSec = 1410, timerRef = Some \<lparr>t = 1500, startTs = 0\<rparr>\<rparr>)"
  by (simp add: running_example_def start_def clear_def initial_card_def interval_callback_def)

lemma addLearn_total: "totalLearnSec (addLearn x p) = totalLearnSec p + max 0 \<lfloor>x\<rfloor>"
  by (simp add: addLearn_def Let_def)

lemma addLearn_effects: "effects (addLearn x p) = effects p @ [Credited Learning (max 0 \<lfloor>x\<rfloor>)]"
  by (simp add: addLearn_def Let_def)

section \<open>Countdown engine: stop\<close>

lemma stop_by_rendered_status:
  "(status r = Running \<longrightarrow>
      stop onAdd r pc = (onAdd (of_int (elapsedSec r)) (fst pc),
                         (snd pc)\<lparr>status := Paused, timerRef := None\<rparr>))
   \<and> (status r \<noteq> Running \<longrightarrow> stop onAdd r pc = pc)"
  by (cases pc) (auto simp: stop_def clear_def)

lemma stop_after_render:
  "(status (snd pc) = Running \<longrightarrow>
      card_step Stop pc = (addLearn (of_int (elapsedSec (snd pc))) (fst pc),
                           (snd pc)\<lparr>status := Paused, timerRef := None\<rparr>)
      \<and> card_step (Tick now) (card_step Stop pc) = card_step Stop pc)
   \<and> (status (snd pc) \<noteq> Running \<longrightarrow> card_step Stop pc = pc)"
  by (cases pc) (auto simp: stop_def clear_def interval_callback_def)

lemma ended_unrendered_eq:
  "ended_unrendered =
     ((notifyDone (beepTriple (addLearn 1500 example_page)),
       \<lparr>minutes = 25, status = Done, startedAt = Some 0, targetSec = 1500, elapsedSec = 1500,
        remainingSec = 0, timerRef = None\<rparr>),
      \<lparr>minutes = 25, status = Running, startedAt = Some 0, targetSec = 1500, elapsedSec = 1499,
       remainingSec = 1, timerRef = Some \<lparr>t = 1500, startTs = 0\<rparr>\<rparr>)"
  by (simp add: ended_unrendered_def start_def clear_def initial_card_def interval_callback_def)

lemma ended_page_fields:
  "totalLearnSec (notifyDone (beepTriple (addLearn 1500 example_page))) = 1500"
  "effects (notifyDone (beepTriple (addLearn 1500 example_page)))
   = [Credited Learning 1500, BeepTriple, SystemNotification ''Learning selesai'']"
  by (simp_all add: notifyDone_def beepTriple_def addLearn_def example_page_fields)

text \<open>
  Claim C7. The claim holds of \<open>stop\<close> when the card has been rendered since its last
  change (\<open>stop_after_render\<close>), and fails otherwise: \<open>stop\<close> tests the status of the last
  render. When the countdown has just ended (the card is \<open>Done\<close>, the target of 1500 is
  credited) and Stop is clicked before the card is rendered again, the handler still sees
  \<open>Running\<close> with 1499 seconds elapsed: the card goes from \<open>Done\<close> to \<open>Paused\<close> and the
  Learning total is credited a second time, reaching 2999.
\<close>

theorem stop_before_rerender_credits_again:
  "status (snd (fst ended_unrendered)) = Done
   \<and> totalLearnSec (fst (fst ended_unrendered)) = 1500
   \<and> status (snd (fst stale_stop)) = Paused
   \<and> totalLearnSec (fst (fst stale_stop)) = 2999
   \<and> effects (fst (fst stale_stop))
       = [Credited Learning 1500, BeepTriple, SystemNotification ''Learning selesai'',
          Credited Learning 1499]"
  by (simp add: stale_stop_def ended_unrendered_eq stop_def clear_def addLearn_total
      addLearn_effects ended_page_fields)

section \<open>Daily totals: add\<close>

lemma addRest_total: "totalRestSec (addRest x p) = totalRestSec p + max 0 \<lfloor>x\<rfloor>"
  by (simp add: addRest_def Let_def)

lemma addRest_effects: "effects (addRest x p) = effects p @ [Credited Rest (max 0 \<lfloor>x\<rfloor>)]"
  by (simp add: addRest_def Let_def)

lemma addRest_other: "totalLearnSec (addRest x p) = totalLearnSec p \<and> today (addRest x p) = today p"
  by (simp add: addRest_def Let_def)

lemma addLearn_other: "totalRestSec (addLearn x p) = totalRestSec p \<and> today (addLearn x p) = today p"
  by (simp add: addLearn_def Let_def)

lemma add_all_today: "today (add_all xs p) = today p"
  by (induction xs p rule: add_all.induct) (auto simp: addRest_other addLearn_other split: total.splits)

lemma add_all_mono:
  "totalLearnSec p \<le> totalLearnSec (add_all xs p) \<and> totalRestSec p \<le> totalRestSec (add_all xs p)"
proof (induction xs p rule: add_all.induct)
  case (1 p)
  show ?case by simp
next
  case (2 c x xs p)
  show ?case
  proof (cases c)
    case Learning
    have "totalLearnSec p \<le> totalLearnSec (addLearn x p)" by (simp add: addLearn_total)
    with 2 Learning show ?thesis
      by (simp add: addLearn_other)
  next
    case Rest
    have "totalRestSec p \<le> totalRestSec (addRest x p)" by (simp add: addRest_total)
    with 2 Rest show ?thesis
      by (simp add: addRest_other)
  qed
qed

lemma addRest_persisted:
  "today p \<noteq> [] \<Longrightarrow> \<not> denied (localStorage p) \<Longrightarrow> \<not> full (localStorage p) \<Longrightarrow>
   readNumber (localStorage (addRest x p)) (rest (page_keys p)) = max 0 (totalRestSec (addRest x p))"
  by (simp add: addRest_def Let_def page_keys_def readNumber_writeNumber_same)

lemma addLearn_persisted:
  "today p \<noteq> [] \<Longrightarrow> \<not> denied (localStorage p) \<Longrightarrow> \<not> full (localStorage p) \<Longrightarrow>
   readNumber (localStorage (addLearn x p)) (learn (page_keys p)) = max 0 (totalLearnSec (addLearn x p))"
  by (simp add: addLearn_def Let_def page_keys_def readNumber_writeNumber_same)

lemma add_negative_is_zero: "addRest (-5) p = addRest 0 p \<and> addLearn (-5) p = addLearn 0 p"
  by (simp add: addRest_def addLearn_def)

lemma mount_effect_storage: "localStorage (mount_effect d p) = localStorage p"
  by (auto simp: mount_effect_def Let_def)

lemma mount_effect_totals:
  "totalLearnSec (mount_effect d p) = readNumber (localStorage p) (''ytdoro:'' @ d @ '':learnSec'')
   \<and> totalRestSec (mount_effect d p) =
       (if readNumber (localStorage p) (''ytdoro:'' @ d @ '':restSec'') \<noteq> 0
        then readNumber (localStorage p) (''ytdoro:'' @ d @ '':restSec'')
        else readNumber (localStorage p) (''ytdoro:'' @ d @ '':breakSec''))
   \<and> today (mount_effect d p) = d"
  by (simp add: mount_effect_def Let_def)

lemma add_unresolved_storage:
  "today p = [] \<Longrightarrow> localStorage (addRest x p) = localStorage p \<and> localStorage (addLearn x p) = localStorage p"
  by (simp add: addRest_def addLearn_def page_keys_def Let_def)

lemma add_all_unresolved_storage: "today p = [] \<Longrightarrow> localStorage (add_all xs p) = localStorage p"
  by (induction xs p rule: add_all.induct)
     (auto simp: add_unresolved_storage addRest_other addLearn_other split: total.splits)

lemma reset_read_zero:
  assumes "today p \<noteq> []" "\<not> full (localStorage p)"
  shows "readNumber (localStorage (resetToday p)) (learn (page_keys p)) = 0"
    and "readNumber (localStorage (resetToday p)) (rest (page_keys p)) = 0"
    and "readNumber (localStorage (resetToday p)) (legacyBreak (page_keys p)) = 0"
proof -
  show "readNumber (localStorage (resetToday p)) (learn (page_keys p)) = 0"
  proof (cases "denied (localStorage p)")
    case True
    then show ?thesis by (simp add: readNumber_denied resetToday_def Let_def writeNumber_flags)
  next
    case False
    with assms show ?thesis
      by (simp add: resetToday_def Let_def page_keys_def readNumber_writeNumber_other
            readNumber_writeNumber_same)
  qed
  show "readNumber (localStorage (resetToday p)) (rest (page_keys p)) = 0"
  proof (cases "denied (localStorage p)")
    case True
    then show ?thesis by (simp add: readNumber_denied resetToday_def Let_def writeNumber_flags)
  next
    case False
    with assms show ?thesis
      by (simp add: resetToday_def Let_def page_keys_def readNumber_writeNumber_other
            readNumber_writeNumber_same writeNumber_flags)
  qed
  show "readNumber (localStorage (resetToday p)) (legacyBreak (page_keys p)) = 0"
  proof (cases "denied (localStorage p)")
    case True
    then show ?thesis by (simp add: readNumber_denied resetToday_def Let_def writeNumber_flags)
  next
    case False
    with assms show ?thesis
      by (simp add: resetToday_def Let_def page_keys_def readNumber_writeNumber_other
            readNumber_writeNumber_same writeNumber_flags)
  qed
qed


lemma legacy_page_fields:
  "today legacy_page = ''2026-11-03''" "totalLearnSec legacy_page = 0" "totalRestSec legacy_page = 120"
  "localStorage legacy_page = legacy_storage"
  by (simp_all add: legacy_page_def mount_effect_def initial_page_def legacy_storage_def
      readNumber_def getItem_def js_Number_def trim_def is_ws_def is_digit_def in_range_def Let_def)

text \<open>
  Claim C8. For both categories and every \<open>delta\<close>, add clamps \<open>delta\<close> to
  \<open>max 0 (floor delta)\<close> and adds it to the in-memory total, which is the sum that the state
  updater returns; the other total is untouched. When the day key is resolved and the storage
  accepts the write, the value read back under the category's key is the new total (the
  writer stores \<open>max 0\<close> of it, which is the total itself whenever the total was not
  negative). Hence a total never decreases over any sequence of add calls, and adding
  \<open>-5\<close> is adding \<open>0\<close>.
\<close>

theorem add_clamps_and_accumulates:
  "totalLearnSec (addLearn delta p) = totalLearnSec p + max 0 \<lfloor>delta\<rfloor>
   \<and> totalRestSec (addRest delta p) = totalRestSec p + max 0 \<lfloor>delta\<rfloor>
   \<and> totalRestSec (addLearn delta p) = totalRestSec p
   \<and> totalLearnSec (addRest delta p) = totalLearnSec p
   \<and> (today p \<noteq> [] \<and> \<not> denied (localStorage p) \<and> \<not> full (localStorage p) \<longrightarrow>
        readNumber (localStorage (addLearn delta p)) (learn (page_keys p))
          = max 0 (totalLearnSec (addLearn delta p))
        \<and> readNumber (localStorage (addRest delta p)) (rest (page_keys p))
          = max 0 (totalRestSec (addRest delta p))
        \<and> (0 \<le> totalLearnSec p \<longrightarrow>
              readNumber (localStorage (addLearn delta p)) (learn (page_keys p))
                = totalLearnSec p + max 0 \<lfloor>delta\<rfloor>)
        \<and> (0 \<le> totalRestSec p \<longrightarrow>
              readNumber (localStorage (addRest delta p)) (rest (page_keys p))
                = totalRestSec p + max 0 \<lfloor>delta\<rfloor>))
   \<and> totalLearnSec p \<le> totalLearnSec (add_all xs p)
   \<and> totalRestSec p \<le> totalRestSec (add_all xs p)
   \<and> addLearn (-5) p = addLearn 0 p
   \<and> addRest (-5) p = addRest 0 p"
  using add_all_mono [of p xs] add_negative_is_zero [of p]
  by (simp add: addLearn_total addRest_total addLearn_other addRest_other addLearn_persisted
      addRest_persisted)

theorem add_clamps_and_accumulates_witness:
  "today example_page \<noteq> [] \<and> \<not> denied (localStorage example_page)
   \<and> \<not> full (localStorage example_page) \<and> 0 \<le> totalRestSec example_page
   \<and> totalRestSec (addRest (7 / 2) example_page) = 3
   \<and> readNumber (localStorage (addRest (7 / 2) example_page)) ''ytdoro:2026-11-03:restSec'' = 3
   \<and> totalLearnSec (addLearn (7 / 2) example_page) = 3
   \<and> readNumber (localStorage (addLearn (7 / 2) example_page)) ''ytdoro:2026-11-03:learnSec'' = 3
   \<and> totalRestSec (add_all [(Rest, 4), (Learning, 2), (Rest, -1)] example_page) \<ge> 0
   \<and> addRest (-5) example_page = addRest 0 example_page"
  using add_clamps_and_accumulates [of "7 / 2" example_page "[(Rest, 4), (Learning, 2), (Rest, -1)]"]
  by (simp add: example_page_fields empty_storage_def page_keys_def)

section \<open>Daily totals: reset\<close>

lemma full_legacy_page_fields:
  "today full_legacy_page = ''2026-11-03''" "totalRestSec full_legacy_page = 120"
  "localStorage full_legacy_page = full_legacy_storage"
  by (simp_all add: full_legacy_page_def full_legacy_storage_def mount_effect_def
      initial_page_def legacy_storage_def readNumber_def getItem_def js_Number_def trim_def
      is_ws_def is_digit_def in_range_def Let_def)

text \<open>
  Claim C9, as stated, fails in two kinds of store state. On a storage that is out of
  quota, the page that adopted the legacy value 120 has Rest total 0 after the reset, but
  the writes were refused and swallowed: the legacy key still holds 120 and the next mount
  effect of that day reads 120 again. And a reset before the day key is resolved writes
  nothing, so that the mount effect that follows yields 120.
\<close>

theorem reset_leaves_legacy_value:
  "today full_legacy_page = ''2026-11-03''
   \<and> totalRestSec full_legacy_page = 120
   \<and> totalRestSec (resetToday full_legacy_page) = 0
   \<and> items (localStorage (resetToday full_legacy_page)) ''ytdoro:2026-11-03:breakSec''
       = Some ''120''
   \<and> totalRestSec (mount_effect ''2026-11-03''
         (initial_page (localStorage (resetToday full_legacy_page)) None False)) = 120
   \<and> today (initial_page legacy_storage None False) = []
   \<and> totalRestSec (resetToday (initial_page legacy_storage None False)) = 0
   \<and> totalRestSec (mount_effect ''2026-11-03''
         (resetToday (initial_page legacy_storage None False))) = 120"
  by (simp add: full_legacy_page_fields resetToday_def page_keys_def writeNumber_def setItem_def
      full_legacy_storage_def mount_effect_totals initial_page_def legacy_storage_def
      readNumber_def getItem_def js_Number_def trim_def is_ws_def is_digit_def in_range_def)

text \<open>
  Claim C9, amended. After \<open>resetToday\<close> both in-memory totals are 0 in every store state.
  When the day key is resolved and the storage is not out of quota, the three keys of the
  day (Learning, Rest and the legacy Break key) read as 0 afterwards, so that a later mount
  effect on the same day, on a fresh page over the storage that the reset left, again
  yields 0 for both totals: a legacy value adopted earlier cannot come back.
\<close>

theorem reset_zeroes_every_read:
  "totalLearnSec (resetToday p) = 0 \<and> totalRestSec (resetToday p) = 0
   \<and> (today p \<noteq> [] \<and> \<not> full (localStorage p) \<longrightarrow>
        readNumber (localStorage (resetToday p)) (learn (page_keys p)) = 0
        \<and> readNumber (localStorage (resetToday p)) (rest (page_keys p)) = 0
        \<and> readNumber (localStorage (resetToday p)) (legacyBreak (page_keys p)) = 0
        \<and> totalLearnSec
             (mount_effect (today p) (initial_page (localStorage (resetToday p)) perm thr)) = 0
        \<and> totalRestSec
             (mount_effect (today p) (initial_page (localStorage (resetToday p)) perm thr)) = 0)"
proof -
  have mem: "totalLearnSec (resetToday p) = 0 \<and> totalRestSec (resetToday p) = 0"
    by (simp add: resetToday_def Let_def)
  have "readNumber (localStorage (resetToday p)) (learn (page_keys p)) = 0
        \<and> readNumber (localStorage (resetToday p)) (rest (page_keys p)) = 0
        \<and> readNumber (localStorage (resetToday p)) (legacyBreak (page_keys p)) = 0
        \<and> totalLearnSec
             (mount_effect (today p) (initial_page (localStorage (resetToday p)) perm thr)) = 0
        \<and> totalRestSec
             (mount_effect (today p) (initial_page (localStorage (resetToday p)) perm thr)) = 0"
    if a: "today p \<noteq> []" "\<not> full (localStorage p)"
  proof -
    note z = reset_read_zero [OF a]
    from a(1) have k: "learn (page_keys p) = ''ytdoro:'' @ today p @ '':learnSec''"
      "rest (page_keys p) = ''ytdoro:'' @ today p @ '':restSec''"
      "legacyBreak (page_keys p) = ''ytdoro:'' @ today p @ '':breakSec''"
      by (simp_all add: page_keys_def Let_def)
    have st: "localStorage (initial_page (localStorage (resetToday p)) perm thr)
              = localStorage (resetToday p)"
      by (simp add: initial_page_def)
    from z k st show ?thesis
      by (simp add: mount_effect_totals)
  qed
  with mem show ?thesis by blast
qed

theorem reset_zeroes_every_read_witness:
  "today legacy_page \<noteq> [] \<and> \<not> full (localStorage legacy_page)
   \<and> totalRestSec legacy_page = 120
   \<and> readNumber (localStorage legacy_page) ''ytdoro:2026-11-03:breakSec'' = 120
   \<and> totalRestSec (resetToday legacy_page) = 0
   \<and> readNumber (localStorage (resetToday legacy_page)) ''ytdoro:2026-11-03:restSec'' = 0
   \<and> readNumber (localStorage (resetToday legacy_page)) ''ytdoro:2026-11-03:breakSec'' = 0
   \<and> totalRestSec
        (mount_effect ''2026-11-03'' (initial_page (localStorage (resetToday legacy_page)) None False))
       = 0"
  using reset_zeroes_every_read [of legacy_page None False]
  by (simp add: legacy_page_fields page_keys_def legacy_storage_def readNumber_def getItem_def
      js_Number_def trim_def is_ws_def is_digit_def in_range_def)

section \<open>Daily totals: the mount effect\<close>

text \<open>
  Claim C4. On a storage where the Rest key of the day is absent and the legacy Break key
  holds 120, the mount effect adopts 120 as the in-memory Rest total, but writes nothing:
  the Rest key is still absent afterwards and reads as 0. The write is guarded by
  \<open>rest === 0 && legacy > 0\<close>, tested after \<open>rest\<close> has taken the legacy value.
\<close>

theorem legacy_value_not_written_forward:
  "readNumber legacy_storage ''ytdoro:2026-11-03:restSec'' = 0
   \<and> readNumber legacy_storage ''ytdoro:2026-11-03:breakSec'' = 120
   \<and> totalRestSec (mount_effect ''2026-11-03'' (initial_page legacy_storage None False)) = 120
   \<and> items (localStorage (mount_effect ''2026-11-03'' (initial_page legacy_storage None False)))
        ''ytdoro:2026-11-03:restSec'' = None
   \<and> readNumber (localStorage (mount_effect ''2026-11-03'' (initial_page legacy_storage None False)))
        ''ytdoro:2026-11-03:restSec'' = 0"
  by (simp add: mount_effect_storage mount_effect_totals initial_page_def legacy_storage_def
      readNumber_def getItem_def js_Number_def trim_def is_ws_def is_digit_def in_range_def)

text \<open>
  Claim C5, as stated, fails: 5 seconds added to Rest before the day key is resolved are in
  the displayed total only until the mount effect runs; the total displayed afterwards is
  the stored value alone.
\<close>

theorem add_before_resolution_lost:
  "today (initial_page empty_storage None False) = []
   \<and> totalRestSec (addRest 5 (initial_page empty_storage None False)) = 5
   \<and> localStorage (addRest 5 (initial_page empty_storage None False)) = empty_storage
   \<and> readNumber empty_storage ''ytdoro:2026-11-03:restSec'' = 0
   \<and> totalRestSec (mount_effect ''2026-11-03'' (addRest 5 (initial_page empty_storage None False)))
       \<noteq> readNumber empty_storage ''ytdoro:2026-11-03:restSec'' + 5"
  by (simp add: mount_effect_totals addRest_total add_unresolved_storage initial_page_def
      empty_storage_def readNumber_def getItem_def)

text \<open>
  Claim C5, amended. An add that arrives before the day key is resolved writes nothing to
  the storage and raises the in-memory total by the clamped delta; when the mount effect
  then resolves the day, both displayed totals are exactly the values restored from the
  storage (for Rest the legacy value where the Rest key reads as 0), whatever was added
  before.
\<close>

theorem add_before_resolution_not_carried:
  "today p = [] \<longrightarrow>
     localStorage (add_all xs p) = localStorage p
     \<and> totalLearnSec (addLearn x p) = totalLearnSec p + max 0 \<lfloor>x\<rfloor>
     \<and> totalRestSec (addRest x p) = totalRestSec p + max 0 \<lfloor>x\<rfloor>
     \<and> totalLearnSec (mount_effect d (add_all xs p))
         = readNumber (localStorage p) (''ytdoro:'' @ d @ '':learnSec'')
     \<and> totalRestSec (mount_effect d (add_all xs p))
         = (if readNumber (localStorage p) (''ytdoro:'' @ d @ '':restSec'') \<noteq> 0
            then readNumber (localStorage p) (''ytdoro:'' @ d @ '':restSec'')
            else readNumber (localStorage p) (''ytdoro:'' @ d @ '':breakSec''))"
  by (simp add: add_all_unresolved_storage addLearn_total addRest_total mount_effect_totals)

theorem add_before_resolution_not_carried_witness:
  "today (initial_page legacy_storage None False) = []
   \<and> totalRestSec (add_all [(Rest, 5)] (initial_page legacy_storage None False)) = 5
   \<and> localStorage (add_all [(Rest, 5)] (initial_page legacy_storage None False)) = legacy_storage
   \<and> totalRestSec (mount_effect ''2026-11-03''
        (add_all [(Rest, 5)] (initial_page legacy_storage None False))) = 120
   \<and> totalLearnSec (mount_effect ''2026-11-03''
        (add_all [(Rest, 5)] (initial_page legacy_storage None False))) = 0"
  using add_before_resolution_not_carried
          [of "initial_page legacy_storage None False" "[(Rest, 5)]" 5 "''2026-11-03''"]
  by (simp add: initial_page_def addRest_total legacy_storage_def
      readNumber_def getItem_def js_Number_def trim_def is_ws_def is_digit_def in_range_def)

section \<open>Resolver: examples\<close>

lemmas char_tests = is_ws_def is_id_char_def is_host_char_def in_range_def

lemma extract_watch_url:
  "extractYouTubeVideoId newURL_basic ''https://www.youtube.com/watch?v=dQw4w9WgXcQ''
   = Some ''dQw4w9WgXcQ''"
  by (simp add: extractYouTubeVideoId_def trim_def id_regex_test_def newURL_basic_def
      searchParams_get_def parse_pair_def filter_Boolean_def char_tests)

lemma extract_not_a_url: "extractYouTubeVideoId newURL_basic ''not a url'' = None"
  by (simp add: extractYouTubeVideoId_def trim_def id_regex_test_def newURL_basic_def char_tests)

lemma playing_panel_eq:
  "playing_panel =
     \<lparr>input = ''not a url'', ytStatus = Playing, videoId = Some ''dQw4w9WgXcQ'', durationSec = 212,
      ytRemainingSec = 162, errorMsg = [], playerRef = Some \<lparr>getDuration = 212, getCurrentTime = 50\<rparr>,
      tickRef = True, countedRef = False\<rparr>"
  by (simp add: playing_panel_def startRestYoutube_def extract_watch_url initial_panel_def
      clearTick_def onReady_def tickOnce_def onPlay_def startTick_def)


section \<open>Player-driven engine: a rejected start\<close>

text \<open>
  Claim C10, as stated, fails: while a video plays and is polled, a start with the rejected
  input \<open>not a url\<close> also cancels the polling interval, so the panel does not differ from
  its previous state in the status and the error message only.
\<close>

theorem rejected_start_cancels_polling:
  "extractYouTubeVideoId newURL_basic (input playing_panel) = None
   \<and> tickRef playing_panel
   \<and> \<not> tickRef (startRestYoutube newURL_basic playing_panel)
   \<and> startRestYoutube newURL_basic playing_panel
       \<noteq> playing_panel\<lparr>ytStatus := Error, errorMsg := ''URL/ID YouTube tidak valid.''\<rparr>"
  by (simp add: playing_panel_eq startRestYoutube_def extract_not_a_url clearTick_def)

text \<open>
  Claim C10, amended. Starting a session with an input that the resolver rejects changes
  the status (to \<open>Error\<close>), the error message and the polling interval, which is cancelled;
  the input, the mounted \<open>videoId\<close>, \<open>durationSec\<close>, the remaining seconds, the player
  reference and the credit latch keep their values.
\<close>

theorem rejected_start_frame:
  "extractYouTubeVideoId newURL (input s) = None \<longrightarrow>
     startRestYoutube newURL s
       = s\<lparr>ytStatus := Error, errorMsg := ''URL/ID YouTube tidak valid.'', tickRef := False\<rparr>
     \<and> videoId (startRestYoutube newURL s) = videoId s
     \<and> durationSec (startRestYoutube newURL s) = durationSec s
     \<and> ytRemainingSec (startRestYoutube newURL s) = ytRemainingSec s
     \<and> countedRef (startRestYoutube newURL s) = countedRef s
     \<and> playerRef (startRestYoutube newURL s) = playerRef s
     \<and> input (startRestYoutube newURL s) = input s"
  by (cases s) (simp add: startRestYoutube_def clearTick_def)

theorem rejected_start_frame_witness:
  "extractYouTubeVideoId newURL_basic (input playing_panel) = None
   \<and> ytStatus (startRestYoutube newURL_basic playing_panel) = Error
   \<and> errorMsg (startRestYoutube newURL_basic playing_panel) = ''URL/ID YouTube tidak valid.''
   \<and> \<not> tickRef (startRestYoutube newURL_basic playing_panel)
   \<and> videoId (startRestYoutube newURL_basic playing_panel) = Some ''dQw4w9WgXcQ''
   \<and> durationSec (startRestYoutube newURL_basic playing_panel) = 212
   \<and> ytRemainingSec (startRestYoutube newURL_basic playing_panel) = 162
   \<and> \<not> countedRef (startRestYoutube newURL_basic playing_panel)"
  using rejected_start_frame [of newURL_basic playing_panel]
  by (simp add: playing_panel_eq extract_not_a_url)

section \<open>Player-driven engine: the credit latch\<close>

lemma handleEndedCount_latched:
  "countedRef (snd ps) \<Longrightarrow> handleEndedCount onAdd ps = ps"
  by (simp add: handleEndedCount_def)

lemma handleEndedCount_latches: "countedRef (snd (handleEndedCount onAdd ps))"
  by (simp add: handleEndedCount_def Let_def)

lemma latched_step:
  "countedRef (snd ps) \<Longrightarrow> e \<noteq> StartRest \<Longrightarrow>
   countedRef (snd (panel_step newURL e ps))
   \<and> totalRestSec (fst (panel_step newURL e ps)) = totalRestSec (fst ps)"
  by (cases e)
     (auto simp: stopRestYoutube_def onReady_def onPlay_def onPause_def onEnd_def onError_def
        onStateChange_def handleEndedCount_def tickOnce_def startTick_def clearTick_def Let_def
        split: option.splits)

lemma latched_run:
  "countedRef (snd ps) \<Longrightarrow> StartRest \<notin> set es \<Longrightarrow>
   countedRef (snd (panel_run newURL es ps))
   \<and> totalRestSec (fst (panel_run newURL es ps)) = totalRestSec (fst ps)"
proof (induction es arbitrary: ps)
  case Nil
  then show ?case by simp
next
  case (Cons e es)
  from Cons.prems have e: "e \<noteq> StartRest" and es: "StartRest \<notin> set es" by auto
  from latched_step [OF Cons.prems(1) e, of newURL]
  have l: "countedRef (snd (panel_step newURL e ps))"
    and t: "totalRestSec (fst (panel_step newURL e ps)) = totalRestSec (fst ps)" by auto
  from Cons.IH [OF l es] t show ?case by simp
qed

lemma terminal_latches:
  "terminal e \<Longrightarrow> e = StopRest \<longrightarrow> playerRef (snd ps) \<noteq> None \<Longrightarrow>
   countedRef (snd (panel_step newURL e ps))"
  by (auto simp: terminal_def stopRestYoutube_def onEnd_def onStateChange_def
        handleEndedCount_latches clearTick_def Let_def)

lemma credit_closes_latch:
  "totalRestSec (fst (panel_step newURL e ps)) \<noteq> totalRestSec (fst ps) \<Longrightarrow>
   terminal e \<and> \<not> countedRef (snd ps) \<and> countedRef (snd (panel_step newURL e ps))"
  by (cases e)
     (auto simp: terminal_def stopRestYoutube_def onEnd_def onStateChange_def
        handleEndedCount_def clearTick_def Let_def split: option.splits if_splits)

lemma terminal_twice:
  "terminal e \<Longrightarrow>
   totalRestSec (fst (panel_step newURL e (panel_step newURL e ps)))
   = totalRestSec (fst (panel_step newURL e ps))"
proof (cases "e = StopRest \<and> playerRef (snd ps) = None")
  case True
  then show ?thesis by (simp add: stopRestYoutube_def)
next
  case False
  assume te: "terminal e"
  with False have l: "countedRef (snd (panel_step newURL e ps))"
    by (intro terminal_latches) auto
  from te have "e \<noteq> StartRest" by (auto simp: terminal_def)
  with l show ?thesis by (simp add: latched_step)
qed

lemma stop_scenario_result:
  "totalRestSec (fst (panel_run newURL_basic stop_scenario (p, initial_panel)))
     = totalRestSec p + 50
   \<and> countedRef (snd (panel_run newURL_basic stop_scenario (p, initial_panel)))"
  by (simp add: stop_scenario_def startRestYoutube_def extract_watch_url initial_panel_def
      clearTick_def onReady_def tickOnce_def onPlay_def startTick_def stopRestYoutube_def
      addRest_total Let_def)


text \<open>
  Claim C1. In every state of the panel and for every terminal trigger (natural end
  reported by \<open>onEnd\<close> or by state-change code 0, or a user stop with a player present):
  the trigger closes the latch, and from then on no sequence of events without a new start
  changes the Rest total or reopens the latch; a terminal handler called twice in
  succession credits no more than it did the first time; and any event that changes the Rest
  total at all is a terminal trigger that found the latch open and closes it, so a session
  is credited at most once. In the scenario of the specification (duration 212, user stop
  at position 50) the Rest total rises by exactly 50, the latch is closed, and a natural
  end signalled afterwards on either channel adds nothing.
\<close>

theorem credit_at_most_once:
  "(terminal e \<and> (e = StopRest \<longrightarrow> playerRef (snd ps) \<noteq> None) \<and> StartRest \<notin> set es \<longrightarrow>
      countedRef (snd (panel_step newURL e ps))
      \<and> totalRestSec (fst (panel_run newURL es (panel_step newURL e ps)))
          = totalRestSec (fst (panel_step newURL e ps))
      \<and> countedRef (snd (panel_run newURL es (panel_step newURL e ps))))
   \<and> (terminal e \<longrightarrow>
        totalRestSec (fst (panel_step newURL e (panel_step newURL e ps)))
        = totalRestSec (fst (panel_step newURL e ps)))
   \<and> (totalRestSec (fst (panel_step newURL e ps)) \<noteq> totalRestSec (fst ps) \<longrightarrow>
        terminal e \<and> \<not> countedRef (snd ps) \<and> countedRef (snd (panel_step newURL e ps)))
   \<and> totalRestSec (fst (panel_run newURL_basic stop_scenario (p, initial_panel)))
       = totalRestSec p + 50
   \<and> countedRef (snd (panel_run newURL_basic stop_scenario (p, initial_panel)))
   \<and> totalRestSec (fst (panel_run newURL_basic (stop_scenario @ [End, StateChange 0])
                          (p, initial_panel)))
       = totalRestSec p + 50"
proof -
  have a: "countedRef (snd (panel_step newURL e ps))
      \<and> totalRestSec (fst (panel_run newURL es (panel_step newURL e ps)))
          = totalRestSec (fst (panel_step newURL e ps))
      \<and> countedRef (snd (panel_run newURL es (panel_step newURL e ps)))"
    if h: "terminal e" "e = StopRest \<longrightarrow> playerRef (snd ps) \<noteq> None" "StartRest \<notin> set es"
  proof -
    have l: "countedRef (snd (panel_step newURL e ps))"
      using h(1,2) by (rule terminal_latches)
    from latched_run [OF l h(3), of newURL] l show ?thesis by simp
  qed
  have b: "totalRestSec (fst (panel_step newURL e (panel_step newURL e ps)))
        = totalRestSec (fst (panel_step newURL e ps))" if "terminal e"
    using that by (rule terminal_twice)
  have c: "terminal e \<and> \<not> countedRef (snd ps) \<and> countedRef (snd (panel_step newURL e ps))"
    if "totalRestSec (fst (panel_step newURL e ps)) \<noteq> totalRestSec (fst ps)"
    using that by (rule credit_closes_latch)
  note d = stop_scenario_result [of p]
  have run_app: "panel_run newURL_basic (xs @ ys) q = panel_run newURL_basic ys (panel_run newURL_basic xs q)"
    for xs ys q by (induction xs arbitrary: q) simp_all
  from d have "totalRestSec (fst (panel_run newURL_basic [End, StateChange 0]
                 (panel_run newURL_basic stop_scenario (p, initial_panel))))
               = totalRestSec p + 50"
    using latched_run [of "panel_run newURL_basic stop_scenario (p, initial_panel)"
                          "[End, StateChange 0]" newURL_basic]
    by simp
  then have e: "totalRestSec (fst (panel_run newURL_basic (stop_scenario @ [End, StateChange 0])
                          (p, initial_panel))) = totalRestSec p + 50"
    by (simp only: run_app)
  from a b c d e show ?thesis by blast
qed

theorem credit_at_most_once_witness:
  "terminal End \<and> StartRest \<notin> set [StateChange 0, StopRest, Poll, End]
   \<and> \<not> countedRef playing_panel
   \<and> totalRestSec (fst (panel_step newURL_basic End (example_page, playing_panel))) = 212
   \<and> countedRef (snd (panel_step newURL_basic End (example_page, playing_panel)))
   \<and> totalRestSec (fst (panel_run newURL_basic [StateChange 0, StopRest, Poll, End]
        (panel_step newURL_basic End (example_page, playing_panel)))) = 212
   \<and> totalRestSec (fst (panel_step newURL_basic End
        (panel_step newURL_basic End (example_page, playing_panel)))) = 212
   \<and> totalRestSec (fst (panel_run newURL_basic stop_scenario (example_page, initial_panel))) = 50"
  using credit_at_most_once [of End "(example_page, playing_panel)"
          "[StateChange 0, StopRest, Poll, End]" newURL_basic example_page]
  by (simp add: terminal_def playing_panel_eq onEnd_def handleEndedCount_def clearTick_def
      addRest_total example_page_fields Let_def)

section \<open>Countdown engine: the invariant\<close>

lemma card_inv_initial: "card_inv initial_card"
  by (simp add: card_inv_def initial_card_def)

lemma card_inv_step: "card_inv (snd pc) \<Longrightarrow> card_inv (snd (card_step e pc))"
proof (cases e)
  case (Start now)
  assume "card_inv (snd pc)"
  have "(60::int) \<le> max 1 \<lfloor>minutes (snd pc)\<rfloor> * 60" by simp
  with Start show ?thesis
    by (simp add: card_inv_def start_def clear_def Let_def)
next
  case (Tick now)
  assume "card_inv (snd pc)"
  with Tick show ?thesis
    by (auto simp: card_inv_def interval_callback_def clear_def Let_def split: option.splits)
next
  case Stop
  assume "card_inv (snd pc)"
  with Stop show ?thesis
    by (auto simp: card_inv_def stop_def clear_def split: option.splits)
next
  case (SetMinutes m)
  assume "card_inv (snd pc)"
  with SetMinutes show ?thesis
    by (auto simp: card_inv_def split: option.splits)
qed

lemma card_inv_run: "card_inv (snd pc) \<Longrightarrow> card_inv (snd (card_run es pc))"
  by (induction es arbitrary: pc) (simp_all add: card_inv_step)

lemma tick_monotone:
  "now \<le> now' \<Longrightarrow>
   remainingSec (snd (card_step (Tick now') (card_step (Tick now) pc)))
   \<le> remainingSec (snd (card_step (Tick now) pc))"
proof (cases "timerRef (snd pc)")
  case None
  then show ?thesis by (simp add: interval_callback_def)
next
  case (Some iv)
  assume le: "now \<le> now'"
  then have d: "(now - startTs iv) div 1000 \<le> (now' - startTs iv) div 1000"
    by (intro zdiv_mono1) simp_all
  show ?thesis
  proof (cases "t iv - (now - startTs iv) div 1000 \<le> 0")
    case True
    with Some show ?thesis by (simp add: interval_callback_def clear_def Let_def)
  next
    case False
    with Some d show ?thesis
      by (auto simp: interval_callback_def clear_def Let_def)
  qed
qed

lemma late_example_eq:
  "snd late_example =
     \<lparr>minutes = 1, status = Done, startedAt = Some 0, targetSec = 60, elapsedSec = 61,
      remainingSec = 0, timerRef = None\<rparr>"
  by (simp add: late_example_def start_def clear_def initial_card_def interval_callback_def)


text \<open>
  Claim C2, as stated, fails: when the tick that ends a one-minute countdown comes 61
  seconds after the start, the card is \<open>Done\<close> with 61 seconds elapsed and none remaining,
  which do not add up to the target of 60.
\<close>

theorem late_tick_breaks_sum:
  "status (snd late_example) = Done \<and> targetSec (snd late_example) = 60
   \<and> elapsedSec (snd late_example) = 61 \<and> remainingSec (snd late_example) = 0
   \<and> elapsedSec (snd late_example) + remainingSec (snd late_example)
       \<noteq> targetSec (snd late_example)"
  by (simp add: late_example_eq)

text \<open>
  Claim C2, amended. In every state that a card reaches from its initial state the remaining
  seconds are not negative; while \<open>Running\<close>, elapsed plus remaining seconds equal the target;
  in \<open>Done\<close> nothing remains and the elapsed seconds are at least the target. Over two
  successive ticks whose clock readings do not decrease, the remaining seconds do not
  increase.
\<close>

theorem countdown_invariant:
  "0 \<le> remainingSec (snd (card_run es (p, initial_card)))
   \<and> (status (snd (card_run es (p, initial_card))) = Running \<longrightarrow>
        elapsedSec (snd (card_run es (p, initial_card)))
          + remainingSec (snd (card_run es (p, initial_card)))
        = targetSec (snd (card_run es (p, initial_card))))
   \<and> (status (snd (card_run es (p, initial_card))) = Done \<longrightarrow>
        remainingSec (snd (card_run es (p, initial_card))) = 0
        \<and> targetSec (snd (card_run es (p, initial_card)))
            \<le> elapsedSec (snd (card_run es (p, initial_card))))
   \<and> (now \<le> now' \<longrightarrow>
        remainingSec (snd (card_step (Tick now') (card_step (Tick now)
                        (card_run es (p, initial_card)))))
        \<le> remainingSec (snd (card_step (Tick now) (card_run es (p, initial_card)))))"
proof -
  have "card_inv (snd (card_run es (p, initial_card)))"
    by (rule card_inv_run) (simp add: card_inv_initial)
  then show ?thesis
    using tick_monotone [of now now' "card_run es (p, initial_card)"]
    by (simp add: card_inv_def)
qed

theorem countdown_invariant_witness:
  "status (snd running_example) = Running
   \<and> elapsedSec (snd running_example) + remainingSec (snd running_example) = 1500
   \<and> targetSec (snd running_example) = 1500
   \<and> (100000::int) \<le> 200000
   \<and> remainingSec (snd (card_step (Tick 100000) running_example)) = 1400
   \<and> remainingSec (snd (card_step (Tick 200000) (card_step (Tick 100000) running_example))) \<le> 1400
   \<and> status (snd late_example) = Done \<and> remainingSec (snd late_example) = 0
   \<and> targetSec (snd late_example) \<le> elapsedSec (snd late_example)"
  using countdown_invariant [of "[Start 0, Tick 90500]" example_page 100000 200000]
    countdown_invariant [of "[SetMinutes 1, Start 0, Tick 61000]" example_page 0 0]
  unfolding running_example_def [symmetric] late_example_def [symmetric]
  by (simp add: running_example_eq late_example_eq interval_callback_def)

section \<open>Countdown engine: completion\<close>

lemma early_tick:
  "timerRef c = Some iv \<Longrightarrow> (n - startTs iv) div 1000 < t iv \<Longrightarrow>
   interval_callback onAdd n (p, c)
   = (p, c\<lparr>elapsedSec := (n - startTs iv) div 1000,
             remainingSec := t iv - (n - startTs iv) div 1000\<rparr>)"
  by (simp add: interval_callback_def Let_def)

lemma early_ticks:
  "timerRef c = Some iv \<Longrightarrow> \<forall>n \<in> set nows. (n - startTs iv) div 1000 < t iv \<Longrightarrow>
   fst (card_run (map Tick nows) (p, c)) = p
   \<and> timerRef (snd (card_run (map Tick nows) (p, c))) = Some iv
   \<and> status (snd (card_run (map Tick nows) (p, c))) = status c
   \<and> targetSec (snd (card_run (map Tick nows) (p, c))) = targetSec c"
proof (induction nows arbitrary: c)
  case Nil
  then show ?case by simp
next
  case (Cons n nows)
  let ?c' = "c\<lparr>elapsedSec := (n - startTs iv) div 1000,
               remainingSec := t iv - (n - startTs iv) div 1000\<rparr>"
  from Cons.prems have step: "interval_callback addLearn n (p, c) = (p, ?c')"
    by (intro early_tick) auto
  have "timerRef ?c' = Some iv" using Cons.prems(1) by simp
  moreover from Cons.prems(2) have "\<forall>n \<in> set nows. (n - startTs iv) div 1000 < t iv" by simp
  ultimately have "fst (card_run (map Tick nows) (p, ?c')) = p
   \<and> timerRef (snd (card_run (map Tick nows) (p, ?c'))) = Some iv
   \<and> status (snd (card_run (map Tick nows) (p, ?c'))) = status ?c'
   \<and> targetSec (snd (card_run (map Tick nows) (p, ?c'))) = targetSec ?c'"
    by (rule Cons.IH)
  with step show ?case by simp
qed

lemma final_tick:
  assumes "timerRef c = Some iv" "t iv \<le> (now - startTs iv) div 1000" "0 \<le> t iv"
  shows "status (snd (interval_callback addLearn now (p, c))) = Done"
    and "remainingSec (snd (interval_callback addLearn now (p, c))) = 0"
    and "timerRef (snd (interval_callback addLearn now (p, c))) = None"
    and "totalLearnSec (fst (interval_callback addLearn now (p, c))) = totalLearnSec p + t iv"
    and "effects (fst (interval_callback addLearn now (p, c)))
         = effects p @ [Credited Learning (t iv), BeepTriple]
           @ (if notification p = Some ''granted'' \<and> \<not> notificationThrows p
              then [SystemNotification ''Learning selesai''] else [])"
    and "interval_callback addLearn later (interval_callback addLearn now (p, c))
         = interval_callback addLearn now (p, c)"
  using assms
  by (simp_all add: interval_callback_def Let_def clear_def notifyDone_def beepTriple_def
      addLearn_def)

lemma run_append: "card_run (xs @ ys) pc = card_run ys (card_run xs pc)"
  by (induction xs arbitrary: pc) simp_all

lemma learning_scenario_eq:
  "snd learning_scenario =
     \<lparr>minutes = 25, status = Done, startedAt = Some 0, targetSec = 1500, elapsedSec = 1500,
      remainingSec = 0, timerRef = None\<rparr>
   \<and> totalLearnSec (fst learning_scenario) = 1500
   \<and> effects (fst learning_scenario)
       = [Credited Learning 1500, BeepTriple, SystemNotification ''Learning selesai'']"
  by (simp add: learning_scenario_def start_def clear_def initial_card_def interval_callback_def
      notifyDone_def beepTriple_def addLearn_total addLearn_effects example_page_fields
      addLearn_def)


text \<open>
  Claim C6. A countdown started with the minutes field at \<open>m\<close> has the target
  \<open>max 1 (floor m) * 60\<close> seconds and is \<open>Running\<close> with all of it remaining. After any
  ticks that still leave time, the first tick at which none remains moves the card to
  \<open>Done\<close>, raises the Learning total by exactly the target (whatever the measured elapsed
  time), then plays the beep and, where permitted, shows the notification, in that order
  after the credit, and clears the interval, so that a later tick changes nothing. With 25
  minutes the target is 1500; after 1500 seconds the card is \<open>Done\<close>, the Learning total
  has risen by 1500 and beep and notification have fired once each.
\<close>

theorem countdown_completes:
  "targetSec (start now0 c0) = max 1 \<lfloor>minutes c0\<rfloor> * 60
   \<and> status (start now0 c0) = Running
   \<and> elapsedSec (start now0 c0) = 0
   \<and> remainingSec (start now0 c0) = targetSec (start now0 c0)
   \<and> ((\<forall>n \<in> set nows. (n - now0) div 1000 < targetSec (start now0 c0))
        \<and> targetSec (start now0 c0) \<le> (now - now0) div 1000 \<longrightarrow>
        status (snd (card_run (Start now0 # map Tick nows @ [Tick now]) (p, c0))) = Done
        \<and> remainingSec (snd (card_run (Start now0 # map Tick nows @ [Tick now]) (p, c0))) = 0
        \<and> timerRef (snd (card_run (Start now0 # map Tick nows @ [Tick now]) (p, c0))) = None
        \<and> totalLearnSec (fst (card_run (Start now0 # map Tick nows @ [Tick now]) (p, c0)))
            = totalLearnSec p + targetSec (start now0 c0)
        \<and> effects (fst (card_run (Start now0 # map Tick nows @ [Tick now]) (p, c0)))
            = effects p @ [Credited Learning (targetSec (start now0 c0)), BeepTriple]
              @ (if notification p = Some ''granted'' \<and> \<not> notificationThrows p
                 then [SystemNotification ''Learning selesai''] else [])
        \<and> card_step (Tick later) (card_run (Start now0 # map Tick nows @ [Tick now]) (p, c0))
            = card_run (Start now0 # map Tick nows @ [Tick now]) (p, c0))
   \<and> targetSec (snd learning_scenario) = 25 * 60
   \<and> status (snd learning_scenario) = Done
   \<and> totalLearnSec (fst learning_scenario) = totalLearnSec example_page + 1500
   \<and> effects (fst learning_scenario)
       = [Credited Learning 1500, BeepTriple, SystemNotification ''Learning selesai'']"
proof -
  let ?c = "start now0 c0"
  let ?iv = "\<lparr>t = targetSec ?c, startTs = now0\<rparr>"
  have st: "targetSec ?c = max 1 \<lfloor>minutes c0\<rfloor> * 60" "status ?c = Running"
    "elapsedSec ?c = 0" "remainingSec ?c = targetSec ?c" "timerRef ?c = Some ?iv"
    by (simp_all add: start_def clear_def Let_def)
  have pos: "0 \<le> targetSec ?c" by (simp add: st(1))
  have fin: "status (snd (card_run (Start now0 # map Tick nows @ [Tick now]) (p, c0))) = Done
        \<and> remainingSec (snd (card_run (Start now0 # map Tick nows @ [Tick now]) (p, c0))) = 0
        \<and> timerRef (snd (card_run (Start now0 # map Tick nows @ [Tick now]) (p, c0))) = None
        \<and> totalLearnSec (fst (card_run (Start now0 # map Tick nows @ [Tick now]) (p, c0)))
            = totalLearnSec p + targetSec ?c
        \<and> effects (fst (card_run (Start now0 # map Tick nows @ [Tick now]) (p, c0)))
            = effects p @ [Credited Learning (targetSec ?c), BeepTriple]
              @ (if notification p = Some ''granted'' \<and> \<not> notificationThrows p
                 then [SystemNotification ''Learning selesai''] else [])
        \<and> card_step (Tick later) (card_run (Start now0 # map Tick nows @ [Tick now]) (p, c0))
            = card_run (Start now0 # map Tick nows @ [Tick now]) (p, c0)"
    if early: "\<forall>n \<in> set nows. (n - now0) div 1000 < targetSec ?c"
      and last: "targetSec ?c \<le> (now - now0) div 1000"
  proof -
    from early have e: "\<forall>n \<in> set nows. (n - startTs ?iv) div 1000 < t ?iv" by simp
    obtain c' where mid: "card_run (map Tick nows) (p, ?c) = (p, c')"
      and tr: "timerRef c' = Some ?iv"
      using early_ticks [OF st(5) e, of p] by (cases "card_run (map Tick nows) (p, ?c)") auto
    have r: "card_run (Start now0 # map Tick nows @ [Tick now]) (p, c0)
             = interval_callback addLearn now (p, c')"
      by (simp add: run_append mid)
    from last have l: "t ?iv \<le> (now - startTs ?iv) div 1000" by simp
    from pos have p0: "0 \<le> t ?iv" by simp
    from final_tick [OF tr l p0] show ?thesis
      unfolding r by simp
  qed
  from st fin learning_scenario_eq show ?thesis
    by (simp add: example_page_fields)
qed

theorem countdown_completes_witness:
  "(10000 - 0) div 1000 < targetSec (start 0 initial_card)
   \<and> targetSec (start 0 initial_card) \<le> (1500000 - 0) div 1000
   \<and> targetSec (start 0 initial_card) = 1500
   \<and> status (snd (card_run [Start 0, Tick 10000, Tick 1500000] (example_page, initial_card)))
       = Done
   \<and> totalLearnSec (fst (card_run [Start 0, Tick 10000, Tick 1500000]
                             (example_page, initial_card))) = 1500
   \<and> effects (fst (card_run [Start 0, Tick 10000, Tick 1500000] (example_page, initial_card)))
       = [Credited Learning 1500, BeepTriple, SystemNotification ''Learning selesai'']"
  using countdown_completes [of 0 initial_card "[10000]" 1500000 example_page 1600000]
  by (simp add: start_def clear_def initial_card_def interval_callback_def notifyDone_def
      beepTriple_def addLearn_def example_page_fields)

section \<open>Resolver: the code against the rules of the specification\<close>

lemma first_of_filtered: "at_index (filter_Boolean xs) 0 = first_segment xs"
  by (induction xs) (auto simp: at_index_def filter_Boolean_def split: if_splits)

lemma at_index_Cons: "0 \<le> i \<Longrightarrow> at_index (x # xs) (i + 1) = at_index xs i"
  by (auto simp: at_index_def nat_add_distrib)

lemma follows_marker_indexOf:
  "follows_marker m xs = (if indexOf xs m \<ge> 0 then at_index xs (indexOf xs m + 1) else None)"
proof (induction m xs rule: follows_marker.induct)
  case (1 m x y xs)
  show ?case
  proof (cases "x = m")
    case True
    then show ?thesis by (simp add: at_index_def)
  next
    case False
    with 1 have ih: "follows_marker m (y # xs)
        = (if indexOf (y # xs) m \<ge> 0 then at_index (y # xs) (indexOf (y # xs) m + 1) else None)"
      by simp
    show ?thesis
    proof (cases "indexOf (y # xs) m < 0")
      case True
      with False ih show ?thesis by (simp add: Let_def)
    next
      case neg: False
      then have nn: "0 \<le> indexOf (y # xs) m" by simp
      have "at_index (x # y # xs) (indexOf (y # xs) m + 1 + 1) = at_index (y # xs) (indexOf (y # xs) m + 1)"
        using nn by (intro at_index_Cons) simp
      with False ih neg nn show ?thesis
        by (simp add: Let_def del: indexOf.simps(2) follows_marker.simps)
           (simp add: Let_def)
    qed
  qed
qed (simp_all add: at_index_def)

lemma segment_after_spec:
  "segment_after parts m = as_option (shape_valid (follows_marker m parts))"
  by (auto simp: segment_after_def follows_marker_indexOf as_option_def shape_valid_def Let_def
      id_regex_test_def split: option.splits)


lemma extract_valid: "extractYouTubeVideoId newURL inp = Some i \<Longrightarrow> id_regex_test i"
  by (auto simp: extractYouTubeVideoId_def segment_after_def Let_def
      split: if_splits sum.splits option.splits)

lemma extract_eq_spec:
  "extractYouTubeVideoId newURL inp = as_option (resolve_spec newURL inp)"
proof (cases "id_regex_test (trim inp)")
  case True
  then show ?thesis
    by (simp add: extractYouTubeVideoId_def resolve_spec_def as_option_def)
next
  case bare: False
  show ?thesis
  proof (cases "newURL (trim inp)")
    case (Inl e)
    with bare show ?thesis
      by (simp add: extractYouTubeVideoId_def resolve_spec_def as_option_def)
  next
    case (Inr u)
    show ?thesis
    proof (cases "str_includes (hostname u) ''youtu.be''")
      case True
      with bare Inr show ?thesis
        by (auto simp: extractYouTubeVideoId_def resolve_spec_def first_of_filtered
            as_option_def shape_valid_def id_regex_test_def split: option.splits)
    next
      case False
      with bare Inr show ?thesis
        by (auto simp: extractYouTubeVideoId_def resolve_spec_def segment_after_spec
            path_segments_def filter_Boolean_def as_option_def shape_valid_def Let_def
            id_regex_test_def split: option.splits resolution.splits)
    qed
  qed
qed

text \<open>
  Claim C3. The resolver computes what the six ordered rules of the specification define:
  an input of a recognised shape (bare identifier; short-link host with the identifier as
  first path segment; \<open>v\<close> query parameter; the first \<open>embed\<close> path segment, or failing
  that the first \<open>shorts\<close> path segment, directly followed by the identifier) yields the identifier that the shape carries, which has 11 characters of
  \<open>[A-Za-z0-9_-]\<close>, and every other input yields no identifier. A string that the URL
  parser rejects is among the latter: the exception is caught and the result is \<open>Invalid\<close>.
\<close>

theorem resolver_follows_rules:
  "extractYouTubeVideoId newURL inp = as_option (resolve_spec newURL inp)
   \<and> (resolve_spec newURL inp = VideoId i \<longrightarrow>
        extractYouTubeVideoId newURL inp = Some i
        \<and> length i = 11 \<and> list_all is_id_char i)
   \<and> (resolve_spec newURL inp = Invalid \<longrightarrow> extractYouTubeVideoId newURL inp = None)
   \<and> (\<not> id_regex_test (trim inp) \<and> newURL (trim inp) = Inl e \<longrightarrow>
        extractYouTubeVideoId newURL inp = None)"
proof -
  note eq = extract_eq_spec [of newURL inp]
  have v: "length i = 11 \<and> list_all is_id_char i" if "resolve_spec newURL inp = VideoId i"
  proof -
    from that eq have "extractYouTubeVideoId newURL inp = Some i"
      by (simp add: as_option_def)
    then have "id_regex_test i" by (rule extract_valid)
    then show ?thesis by (simp add: id_regex_test_def)
  qed
  have f: "extractYouTubeVideoId newURL inp = None"
    if "\<not> id_regex_test (trim inp) \<and> newURL (trim inp) = Inl e"
    using that by (simp add: extractYouTubeVideoId_def)
  from eq v f show ?thesis by (auto simp: as_option_def)
qed

lemma resolve_spec_examples:
  "resolve_spec newURL_basic ''  dQw4w9WgXcQ '' = VideoId ''dQw4w9WgXcQ''"
  "resolve_spec newURL_basic ''https://youtu.be/dQw4w9WgXcQ'' = VideoId ''dQw4w9WgXcQ''"
  "resolve_spec newURL_basic ''https://www.youtube.com/watch?v=dQw4w9WgXcQ'' = VideoId ''dQw4w9WgXcQ''"
  "resolve_spec newURL_basic ''https://www.youtube.com/embed/dQw4w9WgXcQ'' = VideoId ''dQw4w9WgXcQ''"
  "resolve_spec newURL_basic ''https://www.youtube.com/shorts/dQw4w9WgXcQ'' = VideoId ''dQw4w9WgXcQ''"
  "resolve_spec newURL_basic ''https://www.youtube.com/watch?v=short'' = Invalid"
  "resolve_spec newURL_basic ''not a url'' = Invalid"
  "newURL_basic (trim ''not a url'') = Inl TypeError"
  "\<not> id_regex_test (trim ''not a url'')"
  by (simp_all add: resolve_spec_def shape_valid_def path_segments_def trim_def id_regex_test_def
      newURL_basic_def searchParams_get_def parse_pair_def filter_Boolean_def char_tests)

theorem resolver_follows_rules_witness:
  "resolve_spec newURL_basic ''  dQw4w9WgXcQ '' = VideoId ''dQw4w9WgXcQ''
   \<and> extractYouTubeVideoId newURL_basic ''  dQw4w9WgXcQ '' = Some ''dQw4w9WgXcQ''
   \<and> extractYouTubeVideoId newURL_basic ''https://youtu.be/dQw4w9WgXcQ'' = Some ''dQw4w9WgXcQ''
   \<and> extractYouTubeVideoId newURL_basic ''https://www.youtube.com/watch?v=dQw4w9WgXcQ''
       = Some ''dQw4w9WgXcQ''
   \<and> extractYouTubeVideoId newURL_basic ''https://www.youtube.com/embed/dQw4w9WgXcQ''
       = Some ''dQw4w9WgXcQ''
   \<and> extractYouTubeVideoId newURL_basic ''https://www.youtube.com/shorts/dQw4w9WgXcQ''
       = Some ''dQw4w9WgXcQ''
   \<and> resolve_spec newURL_basic ''https://www.youtube.com/watch?v=short'' = Invalid
   \<and> extractYouTubeVideoId newURL_basic ''https://www.youtube.com/watch?v=short'' = None
   \<and> \<not> id_regex_test (trim ''not a url'') \<and> newURL_basic (trim ''not a url'') = Inl TypeError
   \<and> extractYouTubeVideoId newURL_basic ''not a url'' = None"
  using resolver_follows_rules [of newURL_basic "''  dQw4w9WgXcQ ''" "''dQw4w9WgXcQ''" TypeError]
    resolver_follows_rules [of newURL_basic "''https://youtu.be/dQw4w9WgXcQ''" "''dQw4w9WgXcQ''" TypeError]
    resolver_follows_rules [of newURL_basic "''https://www.youtube.com/watch?v=dQw4w9WgXcQ''"
       "''dQw4w9WgXcQ''" TypeError]
    resolver_follows_rules [of newURL_basic "''https://www.youtube.com/embed/dQw4w9WgXcQ''"
       "''dQw4w9WgXcQ''" TypeError]
    resolver_follows_rules [of newURL_basic "''https://www.youtube.com/shorts/dQw4w9WgXcQ''"
       "''dQw4w9WgXcQ''" TypeError]
    resolver_follows_rules [of newURL_basic "''https://www.youtube.com/watch?v=short''" "[]" TypeError]
    resolver_follows_rules [of newURL_basic "''not a url''" "[]" TypeError]
  by (simp only: resolve_spec_examples as_option_def resolution.case) simp

end
